theory Spec2Isabelle
  imports Complex_Main "HOL-Library.AList"
begin

section \<open>Text primitives\<close>

text \<open>
  Python \<open>str\<close> values are modelled as \<open>string\<close> (lists of 8-bit characters).
  The operations below follow the Python built-ins on ASCII text; a code point beyond
  ASCII is carried as its UTF-8 bytes and is neither white space, nor a digit, nor a
  letter. The em dash of the sources (U+2014) is the three bytes \<open>E2 80 94\<close>.
\<close>

definition em_dash :: string where
  "em_dash = [CHR 0xE2, CHR 0x80, CHR 0x94]"

definition py_isspace :: "char \<Rightarrow> bool" where
  "py_isspace c \<longleftrightarrow> c \<in> set [CHR '' '', CHR 0x09, CHR 0x0A, CHR 0x0B, CHR 0x0C, CHR 0x0D,
                              CHR 0x1C, CHR 0x1D, CHR 0x1E, CHR 0x1F]"

definition is_digit :: "char \<Rightarrow> bool" where
  "is_digit c \<longleftrightarrow> c \<in> set ''0123456789''"

definition lower_letters :: string where
  "lower_letters = ''abcdefghijklmnopqrstuvwxyz''"

definition upper_letters :: string where
  "upper_letters = ''ABCDEFGHIJKLMNOPQRSTUVWXYZ''"

definition is_alpha :: "char \<Rightarrow> bool" where
  "is_alpha c \<longleftrightarrow> c \<in> set lower_letters \<or> c \<in> set upper_letters"

text \<open>The class \<open>\w\<close> of the regular expressions.\<close>

definition is_word_char :: "char \<Rightarrow> bool" where
  "is_word_char c \<longleftrightarrow> is_alpha c \<or> is_digit c \<or> c = CHR ''_''"

definition upper_char :: "char \<Rightarrow> char" where
  "upper_char c = (case map_of (zip lower_letters upper_letters) c of Some u \<Rightarrow> u | None \<Rightarrow> c)"

definition lower_char :: "char \<Rightarrow> char" where
  "lower_char c = (case map_of (zip upper_letters lower_letters) c of Some l \<Rightarrow> l | None \<Rightarrow> c)"

definition py_upper :: "string \<Rightarrow> string" where
  "py_upper s = map upper_char s"

definition py_lower :: "string \<Rightarrow> string" where
  "py_lower s = map lower_char s"

text \<open>\<open>s.strip()\<close>\<close>

definition py_strip :: "string \<Rightarrow> string" where
  "py_strip s = rev (dropWhile py_isspace (rev (dropWhile py_isspace s)))"

text \<open>\<open>s.split()\<close>: the maximal runs of characters that are not white space.\<close>

fun split_ws :: "string \<Rightarrow> string \<Rightarrow> string list" where
  "split_ws cur [] = (if cur = [] then [] else [rev cur])"
| "split_ws cur (c # cs) =
     (if py_isspace c then (if cur = [] then split_ws [] cs else rev cur # split_ws [] cs)
      else split_ws (c # cur) cs)"

definition py_split :: "string \<Rightarrow> string list" where
  "py_split s = split_ws [] s"

text \<open>\<open>sep.join(xs)\<close>\<close>

fun py_join :: "string \<Rightarrow> string list \<Rightarrow> string" where
  "py_join sep [] = []"
| "py_join sep [x] = x"
| "py_join sep (x # y # ys) = x @ sep @ py_join sep (y # ys)"

text \<open>\<open>s.startswith(p)\<close>, \<open>s.endswith(p)\<close>, \<open>p in s\<close>\<close>

fun starts_with :: "string \<Rightarrow> string \<Rightarrow> bool" where
  "starts_with [] s = True"
| "starts_with (p # ps) [] = False"
| "starts_with (p # ps) (c # cs) = (p = c \<and> starts_with ps cs)"

definition ends_with :: "string \<Rightarrow> string \<Rightarrow> bool" where
  "ends_with p s \<longleftrightarrow> starts_with (rev p) (rev s)"

fun contains :: "string \<Rightarrow> string \<Rightarrow> bool" where
  "contains p [] = (p = [])"
| "contains p (c # cs) = (starts_with p (c # cs) \<or> contains p cs)"

text \<open>
  \<open>s.replace(old, new)\<close> for a non-empty \<open>old\<close>: the occurrences are replaced from
  left to right without overlap. The counter is the number of characters of the current
  occurrence still to be skipped.
\<close>

fun replace_from :: "string \<Rightarrow> string \<Rightarrow> nat \<Rightarrow> string \<Rightarrow> string" where
  "replace_from old new k [] = []"
| "replace_from old new (Suc k) (c # cs) = replace_from old new k cs"
| "replace_from old new 0 (c # cs) =
     (if starts_with old (c # cs) then new @ replace_from old new (length old - 1) cs
      else c # replace_from old new 0 cs)"

definition py_replace :: "string \<Rightarrow> string \<Rightarrow> string \<Rightarrow> string" where
  "py_replace old new s = replace_from old new 0 s"

text \<open>Truthiness of an \<open>Optional[str]\<close>: \<open>None\<close> and the empty string are falsy.\<close>

fun truthy :: "string option \<Rightarrow> bool" where
  "truthy None = False"
| "truthy (Some s) = (s \<noteq> [])"

text \<open>\<open>a or b\<close> on optional strings.\<close>

definition py_or :: "string option \<Rightarrow> string option \<Rightarrow> string option" where
  "py_or a b = (if truthy a then a else b)"

text \<open>\<open>x or ""\<close>\<close>

definition or_empty :: "string option \<Rightarrow> string" where
  "or_empty a = (case a of None \<Rightarrow> [] | Some s \<Rightarrow> s)"

text \<open>\<open>s or None\<close>\<close>

definition or_none :: "string \<Rightarrow> string option" where
  "or_none s = (if s = [] then None else Some s)"

section \<open>Value tokens (\<open>eh_helper.py\<close>)\<close>

definition NO_DATA :: "string list" where
  "NO_DATA = [''-'', ''--'', em_dash, ''N/A'', ''NA'', ''n/a'', '''']"

record parsed_value =
  pv_value :: "string option"
  pv_unit :: "string option"
  pv_is_est :: "bool option"

text \<open>
  The word boundary \<open>\b\<close> between a character and its successor, either of which may
  be missing at the ends of the text.
\<close>

definition word_boundary :: "char option \<Rightarrow> char option \<Rightarrow> bool" where
  "word_boundary p n \<longleftrightarrow>
     (case p of None \<Rightarrow> False | Some c \<Rightarrow> is_word_char c) \<noteq>
     (case n of None \<Rightarrow> False | Some c \<Rightarrow> is_word_char c)"

definition head_opt :: "string \<Rightarrow> char option" where
  "head_opt s = (case s of [] \<Rightarrow> None | c # _ \<Rightarrow> Some c)"

definition last_opt :: "char option \<Rightarrow> string \<Rightarrow> char option" where
  "last_opt p s = (if s = [] then p else Some (last s))"

text \<open>
  One alternative \<open>w\<close> of \<open>\b(w1|w2)\b\<close> at the current position, under
  \<open>re.I\<close>: \<open>prev\<close> is the character before the position.
\<close>

definition word_at :: "char option \<Rightarrow> string \<Rightarrow> string \<Rightarrow> bool" where
  "word_at prev s w \<longleftrightarrow>
     word_boundary prev (head_opt s) \<and>
     starts_with (py_lower w) (py_lower (take (length w) s)) \<and>
     length w \<le> length s \<and>
     word_boundary (last_opt prev (take (length w) s)) (head_opt (drop (length w) s))"

text \<open>\<open>re.search(r"\b(w1|w2|...)\b", s, flags=re.I)\<close> finds a match.\<close>

fun word_search_from :: "string list \<Rightarrow> char option \<Rightarrow> string \<Rightarrow> bool" where
  "word_search_from ws prev [] = list_ex (word_at prev []) ws"
| "word_search_from ws prev (c # cs) =
     (list_ex (word_at prev (c # cs)) ws \<or> word_search_from ws (Some c) cs)"

definition word_search :: "string list \<Rightarrow> string \<Rightarrow> bool" where
  "word_search ws s = word_search_from ws None s"

text \<open>
  \<open>re.match(r"^(-?[\d.]+)\s*([A-Za-z]?)$", s)\<close>: the three character classes are
  disjoint, so the greedy match is the only one. The result is the pair of groups.
\<close>

definition is_num_char :: "char \<Rightarrow> bool" where
  "is_num_char c \<longleftrightarrow> is_digit c \<or> c = CHR ''.''"

definition match_number_unit :: "string \<Rightarrow> (string \<times> string) option" where
  "match_number_unit s =
     (let (sign, r0) = (if starts_with ''-'' s then (''-'', tl s) else ('''', s));
          num = takeWhile is_num_char r0;
          r1 = dropWhile py_isspace (dropWhile is_num_char r0)
      in if num = [] then None
         else if r1 = [] then Some (sign @ num, '''')
         else if length r1 = 1 \<and> is_alpha (hd r1) then Some (sign @ num, r1)
         else None)"

definition absent_value :: parsed_value where
  "absent_value = \<lparr>pv_value = None, pv_unit = None, pv_is_est = None\<rparr>"

definition parse_one_value :: "string option \<Rightarrow> parsed_value" where
  "parse_one_value raw =
     (if \<not> truthy raw then absent_value
      else
        let s = py_strip (the raw) in
        if s \<in> set NO_DATA then absent_value
        else
          let is_est = (if word_search [''est'', ''estimate''] s then Some True
                        else if word_search [''actual''] s then Some False
                        else None);
              s1 = py_strip
                     (py_replace ''*'' ''''
                       (py_replace '','' ''''
                         (py_replace ''$'' ''''
                           (py_replace ''actual'' ''''
                             (py_replace ''est'' ''''
                               (py_replace ''(actual)'' ''''
                                 (py_replace ''(est)'' '''' s)))))))
          in case match_number_unit s1 of
               None \<Rightarrow> \<lparr>pv_value = or_none s1, pv_unit = None, pv_is_est = is_est\<rparr>
             | Some (v, u) \<Rightarrow>
                 \<lparr>pv_value = Some v, pv_unit = or_none (py_upper u), pv_is_est = is_est\<rparr>)"

section \<open>Estimate and actual (\<open>parse_est_act\<close>)\<close>

record value_unit =
  vu_value :: "string option"
  vu_unit :: "string option"

record est_act =
  est :: value_unit
  act :: value_unit

definition no_value :: value_unit where
  "no_value = \<lparr>vu_value = None, vu_unit = None\<rparr>"

definition value_of :: "parsed_value \<Rightarrow> value_unit" where
  "value_of t = \<lparr>vu_value = pv_value t, vu_unit = pv_unit t\<rparr>"

text \<open>
  The tokens of \<open>toks\<close> are distinct objects even when they are equal as values, so the
  identity tests \<open>a is act\<close> and \<open>b is est\<close> of the source compare positions. The
  model names the chosen token by its position.
\<close>

datatype pos = First | Second

abbreviation tok :: "string \<Rightarrow> parsed_value" where
  "tok v \<equiv> parse_one_value (Some v)"

definition parse_est_act :: "string list \<Rightarrow> est_act" where
  "parse_est_act vals =
     (case map tok (take 2 vals) of
        [] \<Rightarrow> \<lparr>est = no_value, act = no_value\<rparr>
      | [t] \<Rightarrow>
          (if pv_is_est t = Some True then \<lparr>est = value_of t, act = no_value\<rparr>
           else \<lparr>est = no_value, act = value_of t\<rparr>)
      | a # b # _ \<Rightarrow>
          (let pick = (\<lambda>p. case p of First \<Rightarrow> a | Second \<Rightarrow> b) in
           if pv_is_est a = Some True \<or> pv_is_est b = Some True
              \<or> pv_is_est a = Some False \<or> pv_is_est b = Some False
           then
             let est0 = (if pv_is_est a = Some True then Some First
                         else if pv_is_est b = Some True then Some Second else None);
                 act0 = (if pv_is_est a = Some False then Some First
                         else if pv_is_est b = Some False then Some Second else None);
                 est1 = (case est0 of
                           None \<Rightarrow> (if act0 = Some First then Second else First)
                         | Some p \<Rightarrow> p);
                 act1 = (case act0 of
                           None \<Rightarrow> (if est1 = Second then First else Second)
                         | Some p \<Rightarrow> p)
             in \<lparr>est = value_of (pick est1), act = value_of (pick act1)\<rparr>
           else \<lparr>est = value_of a, act = value_of b\<rparr>))"


section \<open>Cleaning and quarter labels\<close>

definition clean_text :: "string option \<Rightarrow> string option" where
  "clean_text s =
     (if \<not> truthy s then None
      else let t = py_strip (py_join '' '' (py_split (the s)))
           in if t \<in> set [''-'', ''--'', em_dash] then None else Some t)"

text \<open>
  The three patterns \<open>(Q[1-4]\s+\d{4})\<close>, \<open>(FY\s+\d{4})\<close> and
  \<open>(H[12]\s+\d{4})\<close> share one shape: the letters \<open>pre\<close>, one character of
  \<open>cls\<close> when \<open>cls\<close> is not empty, white space, four digits. White space and digits
  are disjoint, so the greedy run of white space is the only candidate.
\<close>

definition match_label_year :: "string \<Rightarrow> string \<Rightarrow> string \<Rightarrow> string option" where
  "match_label_year pre cls s =
     (let n = length pre; r0 = drop n s in
      if length s < n \<or> py_lower (take n s) \<noteq> py_lower pre then None
      else
        case (if cls = [] then Some ([], r0)
              else (case r0 of [] \<Rightarrow> None
                    | c # r \<Rightarrow> if c \<in> set cls then Some ([c], r) else None)) of
          None \<Rightarrow> None
        | Some (k, r) \<Rightarrow>
            (let sp = takeWhile py_isspace r; yr = take 4 (dropWhile py_isspace r) in
             if sp \<noteq> [] \<and> length yr = 4 \<and> list_all is_digit yr
             then Some (take n s @ k @ sp @ yr) else None))"

text \<open>\<open>re.search(pat, raw, re.IGNORECASE)\<close>: the leftmost match, as \<open>m.group(1)\<close>.\<close>

fun search_label_year :: "string \<Rightarrow> string \<Rightarrow> string \<Rightarrow> string option" where
  "search_label_year pre cls [] = match_label_year pre cls []"
| "search_label_year pre cls (c # cs) =
     (case match_label_year pre cls (c # cs) of
        Some m \<Rightarrow> Some m
      | None \<Rightarrow> search_label_year pre cls cs)"

definition QUARTER_PATTERNS :: "(string \<times> string) list" where
  "QUARTER_PATTERNS = [(''Q'', ''1234''), (''FY'', ''''), (''H'', ''12'')]"

fun first_pattern :: "(string \<times> string) list \<Rightarrow> string \<Rightarrow> string option" where
  "first_pattern [] raw = None"
| "first_pattern ((pre, cls) # ps) raw =
     (case search_label_year pre cls raw of
        Some m \<Rightarrow> Some m
      | None \<Rightarrow> first_pattern ps raw)"

definition normalize_quarter :: "string option \<Rightarrow> string option" where
  "normalize_quarter raw0 =
     (let raw = clean_text raw0 in
      if \<not> truthy raw then None
      else case first_pattern QUARTER_PATTERNS (the raw) of
             Some m \<Rightarrow> Some (py_replace ''  '' '' '' (py_upper m))
           | None \<Rightarrow> raw)"

section \<open>Dates and times\<close>

record datetime =
  dt_year :: nat
  dt_month :: nat
  dt_day :: nat
  dt_hour :: nat
  dt_minute :: nat

text \<open>
  \<open>datetime.strptime\<close> compiles its format into a regular expression, matches it
  at the start of the text under \<open>re.IGNORECASE\<close>, takes the first match in the
  priority order of the backtracking matcher, and raises \<open>ValueError\<close> when there is
  no match or when the match leaves text unconverted. A pattern is modelled by the
  list of its matches in that priority order, each with the rest of the text.
\<close>

type_synonym 'a rx = "string \<Rightarrow> ('a \<times> string) list"

definition rx_lit :: "string \<Rightarrow> unit rx" where
  "rx_lit p s = (if starts_with p s then [((), drop (length p) s)] else [])"

text \<open>\<open>\s+\<close>, which replaces every run of white space of the format: longest first.\<close>

definition rx_ws1 :: "unit rx" where
  "rx_ws1 s = map (\<lambda>k. ((), drop k s)) (rev [1..<Suc (length (takeWhile py_isspace s))])"

text \<open>An alternation of names; the result is the index of the name.\<close>

definition rx_names :: "string list \<Rightarrow> nat rx" where
  "rx_names names s =
     concat (map (\<lambda>(i, w). if length w \<le> length s \<and> py_lower (take (length w) s) = w
                            then [(i, drop (length w) s)] else [])
                 (enumerate 0 names))"

text \<open>A sequence of character classes, each given by its members.\<close>

fun match_classes :: "string list \<Rightarrow> string \<Rightarrow> (string \<times> string) option" where
  "match_classes [] s = Some ([], s)"
| "match_classes (k # ks) [] = None"
| "match_classes (k # ks) (c # cs) =
     (if c \<in> set k
      then (case match_classes ks cs of None \<Rightarrow> None | Some (m, r) \<Rightarrow> Some (c # m, r))
      else None)"

definition rx_alts :: "string list list \<Rightarrow> string rx" where
  "rx_alts alts s =
     concat (map (\<lambda>a. case match_classes a s of None \<Rightarrow> [] | Some r \<Rightarrow> [r]) alts)"

definition digits :: string where
  "digits = ''0123456789''"

definition digits19 :: string where
  "digits19 = ''123456789''"

text \<open>The directives \<open>%d\<close>, \<open>%I\<close>, \<open>%M\<close> and \<open>%Y\<close> of \<open>_strptime.TimeRE\<close>.\<close>

definition rx_d :: "string rx" where
  "rx_d = rx_alts [[''3'', ''01''], [''12'', digits], [''0'', digits19], [digits19],
                   ['' '', digits19]]"

definition rx_I :: "string rx" where
  "rx_I = rx_alts [[''1'', ''012''], [''0'', digits19], [digits19]]"

definition rx_M :: "string rx" where
  "rx_M = rx_alts [[''012345'', digits], [digits]]"

definition rx_Y :: "string rx" where
  "rx_Y = rx_alts [[digits, digits, digits, digits]]"

definition a_weekday :: "string list" where
  "a_weekday = [''mon'', ''tue'', ''wed'', ''thu'', ''fri'', ''sat'', ''sun'']"

definition a_month :: "string list" where
  "a_month = [''jan'', ''feb'', ''mar'', ''apr'', ''may'', ''jun'',
              ''jul'', ''aug'', ''sep'', ''oct'', ''nov'', ''dec'']"

definition am_pm :: "string list" where
  "am_pm = [''am'', ''pm'']"

text \<open>\<open>int(s)\<close> on a matched group: digits, possibly after a blank.\<close>

definition digit_val :: "char \<Rightarrow> nat" where
  "digit_val c = length (takeWhile (\<lambda>d. d \<noteq> c) digits)"

definition py_int :: "string \<Rightarrow> nat" where
  "py_int s = foldl (\<lambda>n c. 10 * n + digit_val c) 0 (filter is_digit s)"

definition is_leap :: "nat \<Rightarrow> bool" where
  "is_leap y \<longleftrightarrow> y mod 4 = 0 \<and> (y mod 100 \<noteq> 0 \<or> y mod 400 = 0)"

definition days_in_month :: "nat \<Rightarrow> nat \<Rightarrow> nat" where
  "days_in_month y m =
     (if m = 2 then (if is_leap y then 29 else 28)
      else if m \<in> set [4, 6, 9, 11] then 30 else 31)"

text \<open>
  The construction of the date: a year of zero and a day beyond the month are
  \<open>ValueError\<close>s. The weekday of \<open>%a\<close> is matched and not compared with the date.
\<close>

definition make_datetime :: "nat \<Rightarrow> nat \<Rightarrow> nat \<Rightarrow> nat \<Rightarrow> nat \<Rightarrow> datetime option" where
  "make_datetime y m d h mi =
     (if y = 0 \<or> d = 0 \<or> days_in_month y m < d then None
      else Some \<lparr>dt_year = y, dt_month = m, dt_day = d, dt_hour = h, dt_minute = mi\<rparr>)"

text \<open>\<open>datetime.strptime(s, "%a, %b %d, %Y, %I:%M %p")\<close>\<close>

definition rx_full :: "(nat \<times> string \<times> string \<times> string \<times> string \<times> nat) rx" where
  "rx_full s =
     [((b, d, y, i, m, p), r16).
        (a, r1) \<leftarrow> rx_names a_weekday s, (u1, r2) \<leftarrow> rx_lit '','' r1, (u2, r3) \<leftarrow> rx_ws1 r2,
        (b, r4) \<leftarrow> rx_names a_month r3, (u3, r5) \<leftarrow> rx_ws1 r4,
        (d, r6) \<leftarrow> rx_d r5, (u4, r7) \<leftarrow> rx_lit '','' r6, (u5, r8) \<leftarrow> rx_ws1 r7,
        (y, r9) \<leftarrow> rx_Y r8, (u6, r10) \<leftarrow> rx_lit '','' r9, (u7, r11) \<leftarrow> rx_ws1 r10,
        (i, r12) \<leftarrow> rx_I r11, (u8, r13) \<leftarrow> rx_lit '':'' r12,
        (m, r14) \<leftarrow> rx_M r13, (u9, r15) \<leftarrow> rx_ws1 r14,
        (p, r16) \<leftarrow> rx_names am_pm r15]"

definition strptime_full :: "string \<Rightarrow> datetime option" where
  "strptime_full s =
     (case rx_full s of
        [] \<Rightarrow> None
      | ((b, d, y, i, m, p), r) # _ \<Rightarrow>
          if r \<noteq> [] then None
          else let h = py_int i;
                   hour = (if p = 0 then (if h = 12 then 0 else h)
                           else (if h = 12 then 12 else h + 12))
               in make_datetime (py_int y) (Suc b) (py_int d) hour (py_int m))"

text \<open>\<open>datetime.strptime(s, "%b %d, %Y")\<close>\<close>

definition rx_date :: "(nat \<times> string \<times> string) rx" where
  "rx_date s =
     [((b, d, y), r6).
        (b, r1) \<leftarrow> rx_names a_month s, (u1, r2) \<leftarrow> rx_ws1 r1,
        (d, r3) \<leftarrow> rx_d r2, (u2, r4) \<leftarrow> rx_lit '','' r3, (u3, r5) \<leftarrow> rx_ws1 r4,
        (y, r6) \<leftarrow> rx_Y r5]"

definition strptime_date :: "string \<Rightarrow> datetime option" where
  "strptime_date s =
     (case rx_date s of
        [] \<Rightarrow> None
      | ((b, d, y), r) # _ \<Rightarrow>
          if r \<noteq> [] then None else make_datetime (py_int y) (Suc b) (py_int d) 0 0)"

text \<open>
  \<open>strftime\<close> is the C library's. The flags \<open>#\<close> and \<open>-\<close> before \<open>I\<close> and the width
  of \<open>%Y\<close> are not the same on every platform, so the library is a parameter: the text
  of the hour of the 12-hour clock under \<open>%#I\<close> and under \<open>%-I\<close> (\<open>None\<close> when the
  library rejects the directive and Python raises \<open>ValueError\<close>), and the text of the
  year under \<open>%Y\<close>.
\<close>

record clib =
  hour_hash :: "nat \<Rightarrow> string option"
  hour_dash :: "nat \<Rightarrow> string option"
  year_text :: "nat \<Rightarrow> string"

definition digit_char :: "nat \<Rightarrow> char" where
  "digit_char d = digits ! (d mod 10)"

definition pad2 :: "nat \<Rightarrow> string" where
  "pad2 n = [digit_char (n div 10), digit_char n]"

definition pad4 :: "nat \<Rightarrow> string" where
  "pad4 n = [digit_char (n div 1000), digit_char (n div 100), digit_char (n div 10),
             digit_char n]"

text \<open>The decimal text of a natural number.\<close>

function decimal :: "nat \<Rightarrow> string" where
  "decimal n = (if n < 10 then [digit_char n] else decimal (n div 10) @ [digit_char n])"
  by pat_completeness auto
termination
  by (relation "measure id") auto

text \<open>
  The GNU C library takes \<open>#\<close> as a change of letter case, which leaves the digits of
  \<open>%#I\<close> as \<open>%I\<close> writes them, with the leading zero; \<open>-\<close> suppresses the padding;
  \<open>%Y\<close> is not padded. The Microsoft C runtime takes \<open>#\<close> as the removal of leading
  zeros and rejects \<open>-\<close>; \<open>%Y\<close> has four digits.
\<close>

definition glibc :: clib where
  "glibc = \<lparr>hour_hash = (\<lambda>h. Some (pad2 h)), hour_dash = (\<lambda>h. Some (decimal h)),
            year_text = decimal\<rparr>"

definition msvcrt :: clib where
  "msvcrt = \<lparr>hour_hash = (\<lambda>h. Some (decimal h)), hour_dash = (\<lambda>h. None),
             year_text = pad4\<rparr>"

definition hour12 :: "datetime \<Rightarrow> nat" where
  "hour12 dt = (if dt_hour dt mod 12 = 0 then 12 else dt_hour dt mod 12)"

definition time_tail :: "datetime \<Rightarrow> string" where
  "time_tail dt =
     '':'' @ pad2 (dt_minute dt) @ '' '' @ (if dt_hour dt < 12 then ''AM'' else ''PM'')"

text \<open>\<open>_fmt_time_portable\<close>; \<open>None\<close> is the \<open>ValueError\<close> of the second attempt.\<close>

definition fmt_time_portable :: "clib \<Rightarrow> datetime \<Rightarrow> string option" where
  "fmt_time_portable L dt =
     (case hour_hash L (hour12 dt) of
        Some h \<Rightarrow> Some (h @ time_tail dt)
      | None \<Rightarrow> (case hour_dash L (hour12 dt) of
                   Some h \<Rightarrow> Some (h @ time_tail dt)
                 | None \<Rightarrow> None))"

text \<open>\<open>dt.strftime("%m/%d/%Y")\<close>\<close>

definition strftime_mdY :: "clib \<Rightarrow> datetime \<Rightarrow> string" where
  "strftime_mdY L dt =
     pad2 (dt_month dt) @ ''/'' @ pad2 (dt_day dt) @ ''/'' @ year_text L (dt_year dt)"

definition strip_suffix :: "string \<Rightarrow> string \<Rightarrow> string" where
  "strip_suffix suffix cleaned =
     (if ends_with suffix (py_upper cleaned)
      then py_strip (take (length cleaned - length suffix) cleaned) else cleaned)"

definition strip_suffixes :: "string \<Rightarrow> string" where
  "strip_suffixes s = fold strip_suffix [''ESTIMATE'', ''EST'', ''ACTUAL''] (py_strip s)"

text \<open>
  \<open>parse_date_time\<close>. Both values of the first \<open>return\<close> are computed inside the
  \<open>try\<close>, so a \<open>ValueError\<close> of the time formatting falls through to the second
  pattern as a failed parse does.
\<close>

definition parse_date_time :: "clib \<Rightarrow> string option \<Rightarrow> string option \<times> string option" where
  "parse_date_time L raw =
     (let raw_text = clean_text raw in
      if \<not> truthy raw_text then (None, None)
      else
        let cleaned = strip_suffixes (the raw_text) in
        case (case strptime_full cleaned of
                None \<Rightarrow> None
              | Some dt \<Rightarrow> (case fmt_time_portable L dt of
                             None \<Rightarrow> None
                           | Some t \<Rightarrow> Some (strftime_mdY L dt, t))) of
          Some (d, t) \<Rightarrow> (Some d, Some t)
        | None \<Rightarrow>
            (case strptime_date cleaned of
               Some dt \<Rightarrow> (Some (strftime_mdY L dt), None)
             | None \<Rightarrow> (Some cleaned, None)))"

section \<open>Numbers, percentages and status\<close>

text \<open>
  A Python \<open>float\<close> is a finite value, an infinity or a NaN. The finite values are
  carried as the rationals they denote, and the comparisons below are those of IEEE
  754 on them: every comparison with a NaN is false.
\<close>

datatype pyfloat = Finite rat | PosInf | NegInf | NaN

fun float_ge :: "pyfloat \<Rightarrow> pyfloat \<Rightarrow> bool" where
  "float_ge NaN y = False"
| "float_ge x NaN = False"
| "float_ge PosInf y = True"
| "float_ge x NegInf = True"
| "float_ge NegInf y = False"
| "float_ge x PosInf = False"
| "float_ge (Finite a) (Finite b) = (b \<le> a)"

fun float_lt :: "pyfloat \<Rightarrow> pyfloat \<Rightarrow> bool" where
  "float_lt NaN y = False"
| "float_lt x NaN = False"
| "float_lt PosInf y = False"
| "float_lt x NegInf = False"
| "float_lt NegInf y = True"
| "float_lt x PosInf = True"
| "float_lt (Finite a) (Finite b) = (a < b)"

text \<open>
  The callers of \<open>determine_status\<close> pass the actual and the estimate as the texts
  that \<open>parse_est_act\<close> returned, or as numbers; \<open>float(x)\<close> converts both. The
  conversion of a text is Python's built-in and is a parameter \<open>to_float\<close> of the
  functions that need it, with \<open>None\<close> for the exception it raises.
\<close>

datatype scalar = Num pyfloat | Str string

fun py_float :: "(string \<Rightarrow> pyfloat option) \<Rightarrow> scalar \<Rightarrow> pyfloat option" where
  "py_float to_float (Num x) = Some x"
| "py_float to_float (Str s) = to_float s"

definition determine_status ::
  "(string \<Rightarrow> pyfloat option) \<Rightarrow> pyfloat option \<Rightarrow> scalar option \<Rightarrow> scalar option
   \<Rightarrow> string option" where
  "determine_status to_float percentage actual estimate =
     (case percentage of
        Some p \<Rightarrow> Some (if float_ge p (Finite 0) then ''Beat'' else ''Miss'')
      | None \<Rightarrow>
          (case actual of
             None \<Rightarrow> None
           | Some a \<Rightarrow>
               (case estimate of
                  None \<Rightarrow> None
                | Some e \<Rightarrow>
                    (case py_float to_float a of
                       None \<Rightarrow> None
                     | Some x \<Rightarrow>
                         (case py_float to_float e of
                            None \<Rightarrow> None
                          | Some y \<Rightarrow>
                              Some (if float_ge x y then ''Beat'' else ''Miss''))))))"

definition parse_percent :: "(string \<Rightarrow> pyfloat option) \<Rightarrow> string option \<Rightarrow> pyfloat option" where
  "parse_percent to_float s =
     (if \<not> truthy s then None
      else to_float (py_replace '','' '''' (py_replace ''%'' '''' (py_strip (the s)))))"

text \<open>
  Two instances of the parameters, for concrete inputs. \<open>plain_float\<close> is
  \<open>float(s)\<close> on the plain decimal literals (white space around, a sign, digits with
  at most one point); the other forms that \<open>float\<close> accepts (exponents, underscores,
  \<open>inf\<close>, \<open>nan\<close>) are outside it. \<open>fixed2\<close> is the format \<open>.2f\<close>, which rounds
  the exact value half to even.
\<close>

definition plain_float :: "string \<Rightarrow> pyfloat option" where
  "plain_float s0 =
     (let s = py_strip s0;
          neg = starts_with ''-'' s;
          r = (if neg \<or> starts_with ''+'' s then tl s else s);
          ip = takeWhile is_digit r;
          r1 = dropWhile is_digit r;
          fp = (if starts_with ''.'' r1 then takeWhile is_digit (tl r1) else []);
          r2 = (if starts_with ''.'' r1 then dropWhile is_digit (tl r1) else r1);
          q = rat_of_nat (py_int (ip @ fp)) / 10 ^ length fp
      in if r2 \<noteq> [] \<or> ip @ fp = [] then None
         else Some (Finite (if neg then - q else q)))"

definition round_half_even :: "rat \<Rightarrow> nat" where
  "round_half_even x =
     (let f = \<lfloor>x\<rfloor>; r = x - of_int f
      in nat (if r < 1 / 2 then f else if 1 / 2 < r then f + 1
              else if even f then f else f + 1))"

fun fixed2 :: "pyfloat \<Rightarrow> string" where
  "fixed2 (Finite q) =
     (let n = round_half_even (\<bar>q\<bar> * 100)
      in (if q < 0 then ''-'' else '''') @ decimal (n div 100) @ ''.'' @ pad2 n)"
| "fixed2 PosInf = ''inf''"
| "fixed2 NegInf = ''-inf''"
| "fixed2 NaN = ''nan''"

section \<open>The history table (\<open>history_parser.py\<close>, \<open>controller.py\<close>)\<close>

text \<open>
  The parsed document, as the parser consults it: the tables in document order, each
  with its \<open>class\<close> attribute and its rows, each row with its \<open>td\<close> and \<open>th\<close>
  cells and the stripped text of each cell.
\<close>

record cell =
  is_th :: bool
  cell_text :: string

record html_table =
  table_class :: "string option"
  table_rows :: "cell list list"

definition table_ths :: "html_table \<Rightarrow> cell list" where
  "table_ths t = filter is_th (concat (table_rows t))"

definition find_earnings_table :: "html_table list \<Rightarrow> html_table option" where
  "find_earnings_table soup =
     (case find (\<lambda>t. truthy (table_class t) \<and> contains ''MuiTable-root'' (the (table_class t)))
                soup of
        Some t \<Rightarrow> Some t
      | None \<Rightarrow> find (\<lambda>t. 4 \<le> length (table_ths t)) soup)"

definition normalize_header :: "string \<Rightarrow> string" where
  "normalize_header h =
     py_replace ''%'' ''pct'' (py_replace ''.'' '''' (py_replace '' '' ''_''
       (py_lower (py_strip h))))"

definition parse_headers :: "html_table \<Rightarrow> string list" where
  "parse_headers t = map (\<lambda>th. normalize_header (cell_text th)) (table_ths t)"

text \<open>
  The row dictionary, read through \<open>row.get\<close>: a missing key and a key bound to
  \<open>None\<close> both read as \<open>None\<close>. A later header of the same name overwrites the
  earlier binding.
\<close>

type_synonym row_map = "string \<Rightarrow> string option"

definition row_to_map :: "string list \<Rightarrow> cell list \<Rightarrow> row_map" where
  "row_to_map headers cells =
     fold (\<lambda>(i, key) row.
             row(key := (if i < length cells then clean_text (Some (cell_text (cells ! i)))
                         else None)))
          (enumerate 0 headers) (\<lambda>k. None)"

record history_row =
  h_ticker :: string
  h_quarter :: string
  h_date :: string
  h_rev_est :: string
  h_rev_est_unit :: string
  h_rev_act :: string
  h_rev_act_unit :: string
  h_rev_pct :: string
  h_rev_status :: string
  h_eps_est :: string
  h_eps_act :: string
  h_eps_pct :: string
  h_eps_status :: string

text \<open>The intermediate values of \<open>_transform_row\<close>.\<close>

definition row_quarter :: "row_map \<Rightarrow> string option" where
  "row_quarter row = normalize_quarter (py_or (py_or (row ''earnings'') (row ''quarter'')) None)"

definition row_date :: "clib \<Rightarrow> row_map \<Rightarrow> string option" where
  "row_date L row = fst (parse_date_time L (py_or (row ''release_date'') (row ''date'')))"

text \<open>\<open>[v for v in [est_raw, act_raw] if v]\<close>\<close>

definition cell_tokens :: "string option \<Rightarrow> string option \<Rightarrow> string list" where
  "cell_tokens est_raw act_raw = map the (filter truthy [est_raw, act_raw])"

definition row_rev :: "row_map \<Rightarrow> est_act" where
  "row_rev row = parse_est_act (cell_tokens (row ''rev_est'') (row ''rev_act''))"

definition row_eps :: "row_map \<Rightarrow> est_act" where
  "row_eps row = parse_est_act (cell_tokens (row ''eps_est'') (row ''eps_act''))"

definition pct_text :: "(pyfloat \<Rightarrow> string) \<Rightarrow> pyfloat option \<Rightarrow> string" where
  "pct_text fmt2 p = (case p of None \<Rightarrow> [] | Some x \<Rightarrow> fmt2 x)"

definition transform_row ::
  "clib \<Rightarrow> (string \<Rightarrow> pyfloat option) \<Rightarrow> (pyfloat \<Rightarrow> string) \<Rightarrow> string \<Rightarrow> row_map
   \<Rightarrow> history_row option" where
  "transform_row L to_float fmt2 ticker row =
     (let quarter = row_quarter row;
          date = row_date L row;
          rev_est = vu_value (est (row_rev row));
          rev_est_unit = vu_unit (est (row_rev row));
          rev_act = vu_value (act (row_rev row));
          rev_act_unit = vu_unit (act (row_rev row));
          eps_est = vu_value (est (row_eps row));
          eps_act = vu_value (act (row_eps row));
          rev_pct = parse_percent to_float (py_or (row ''rev_surp'') (row ''rev_pct''));
          eps_pct = parse_percent to_float (py_or (row ''eps_surp'') (row ''eps_pct''));
          rev_status = determine_status to_float rev_pct
                         (map_option Str rev_act) (map_option Str rev_est);
          eps_status = determine_status to_float eps_pct
                         (map_option Str eps_act) (map_option Str eps_est)
      in if \<not> list_ex truthy [quarter, date, rev_est, rev_act, eps_est, eps_act] then None
         else Some \<lparr>h_ticker = ticker,
                    h_quarter = or_empty quarter,
                    h_date = or_empty date,
                    h_rev_est = or_empty rev_est,
                    h_rev_est_unit = or_empty rev_est_unit,
                    h_rev_act = or_empty rev_act,
                    h_rev_act_unit = or_empty rev_act_unit,
                    h_rev_pct = pct_text fmt2 rev_pct,
                    h_rev_status = or_empty rev_status,
                    h_eps_est = or_empty eps_est,
                    h_eps_act = or_empty eps_act,
                    h_eps_pct = pct_text fmt2 eps_pct,
                    h_eps_status = or_empty eps_status\<rparr>)"

text \<open>
  \<open>parse_rows\<close>: the rows after the first, those without cells skipped, each
  transformed and kept when the transformation returns a record.
\<close>

definition parse_rows ::
  "clib \<Rightarrow> (string \<Rightarrow> pyfloat option) \<Rightarrow> (pyfloat \<Rightarrow> string) \<Rightarrow> string \<Rightarrow> html_table list
   \<Rightarrow> history_row list" where
  "parse_rows L to_float fmt2 ticker soup =
     (case find_earnings_table soup of
        None \<Rightarrow> []
      | Some table \<Rightarrow>
          (let headers = parse_headers table in
           if headers = [] then []
           else concat (map (\<lambda>cells.
                   if cells = [] then []
                   else (case transform_row L to_float fmt2 ticker (row_to_map headers cells) of
                           None \<Rightarrow> []
                         | Some parsed \<Rightarrow> [parsed]))
                 (tl (table_rows table)))))"

text \<open>
  \<open>df.drop_duplicates(subset=..., keep="first")\<close>: a row is dropped when the values
  of the subset columns have been seen in an earlier row.
\<close>

fun drop_duplicates :: "('a \<Rightarrow> 'k) \<Rightarrow> 'k list \<Rightarrow> 'a list \<Rightarrow> 'a list" where
  "drop_duplicates key seen [] = []"
| "drop_duplicates key seen (x # xs) =
     (if key x \<in> set seen then drop_duplicates key seen xs
      else x # drop_duplicates key (key x # seen) xs)"

definition quarter_date :: "history_row \<Rightarrow> string \<times> string" where
  "quarter_date r = (h_quarter r, h_date r)"

definition parse_earnings ::
  "clib \<Rightarrow> (string \<Rightarrow> pyfloat option) \<Rightarrow> (pyfloat \<Rightarrow> string) \<Rightarrow> string \<Rightarrow> html_table list
   \<Rightarrow> history_row list" where
  "parse_earnings L to_float fmt2 ticker soup =
     drop_duplicates quarter_date [] (parse_rows L to_float fmt2 ticker soup)"

text \<open>A history table with a repeated row, a row of placeholders and a row without cells.\<close>

definition td_row :: "string list \<Rightarrow> cell list" where
  "td_row texts = map (\<lambda>t. \<lparr>is_th = False, cell_text = t\<rparr>) texts"

definition th_row :: "string list \<Rightarrow> cell list" where
  "th_row texts = map (\<lambda>t. \<lparr>is_th = True, cell_text = t\<rparr>) texts"

definition example_table :: html_table where
  "example_table =
     \<lparr>table_class = Some ''MuiTable-root'',
      table_rows =
        [th_row [''Earnings'', ''Rev Est'', ''Rev Act''],
         td_row [''Q1 2025'', ''$12.3B'', ''$12.5B''],
         td_row [''Q1 2025'', ''$99B'', ''--''],
         td_row [''-'', ''N/A'', ''--''],
         [],
         td_row [''Q4 2024'', ''-'', ''$11B'']]\<rparr>"

definition example_rows :: "history_row list" where
  "example_rows =
     map (\<lambda>(q, e, eu, a, au, st).
            \<lparr>h_ticker = ''AAPL'', h_quarter = q, h_date = [], h_rev_est = e,
             h_rev_est_unit = eu, h_rev_act = a, h_rev_act_unit = au, h_rev_pct = [],
             h_rev_status = st, h_eps_est = [], h_eps_act = [], h_eps_pct = [],
             h_eps_status = []\<rparr>)
       [(''Q1 2025'', ''12.3'', ''B'', ''12.5'', ''B'', ''Beat''),
        (''Q1 2025'', [], [], ''99'', ''B'', []),
        (''Q4 2024'', [], [], ''11'', ''B'', [])]"


definition placeholder_row :: row_map where
  "placeholder_row = row_to_map (parse_headers example_table) (td_row [''-'', ''N/A'', ''--''])"

text \<open>
  A history table with a date column: the second body row repeats the quarter and the
  date of the first, the third has the quarter of the first and another date, the fourth
  has the date of the first and another quarter.
\<close>

definition dated_table :: html_table where
  "dated_table =
     \<lparr>table_class = Some ''MuiTable-root'',
      table_rows =
        [th_row [''Earnings'', ''Release Date'', ''Rev Act''],
         td_row [''Q3 2025'', ''Jul 31, 2025'', ''$94B''],
         td_row [''Q3 2025'', ''Jul 31, 2025'', ''$95B''],
         td_row [''Q3 2025'', ''Aug 1, 2025'', ''$96B''],
         td_row [''Q2 2025'', ''Jul 31, 2025'', ''$97B'']]\<rparr>"

definition dated_rows :: "history_row list" where
  "dated_rows =
     map (\<lambda>(q, d, a).
            \<lparr>h_ticker = ''AAPL'', h_quarter = q, h_date = d, h_rev_est = [],
             h_rev_est_unit = [], h_rev_act = a, h_rev_act_unit = ''B'', h_rev_pct = [],
             h_rev_status = [], h_eps_est = [], h_eps_act = [], h_eps_pct = [],
             h_eps_status = []\<rparr>)
       [(''Q3 2025'', ''07/31/2025'', ''94''),
        (''Q3 2025'', ''07/31/2025'', ''95''),
        (''Q3 2025'', ''08/01/2025'', ''96''),
        (''Q2 2025'', ''07/31/2025'', ''97'')]"

section \<open>The fetch orchestrator (\<open>scraper.py\<close>)\<close>

definition VARIANT_OVERVIEW :: string where
  "VARIANT_OVERVIEW = ''overview''"

definition VARIANT_FULL :: string where
  "VARIANT_FULL = ''full''"

definition VARIANT_EARNINGS :: string where
  "VARIANT_EARNINGS = ''earnings''"

definition VARIANT_ANALYST :: string where
  "VARIANT_ANALYST = ''analyst''"

definition ALLOWED :: "string list" where
  "ALLOWED = [VARIANT_OVERVIEW, VARIANT_FULL]"

definition no_results :: "string \<Rightarrow> bool" where
  "no_results html = contains ''symbol not found'' (py_lower html)"

text \<open>
  What the orchestrator acts on: the files of the cache directory (path to content),
  the number of browser sessions it has asked for and the number it has closed, and
  the addresses it has asked the browser to load, in order.
\<close>

record world =
  files :: "string \<Rightarrow> string option"
  launched :: nat
  quitted :: nat
  visited :: "string list"

text \<open>
  The browser and the site, as the orchestrator depends on them: whether
  \<open>webdriver.Chrome\<close> returns a driver, whether \<open>_navigate\<close> returns for an address,
  and the \<open>page_source\<close> read on the page of an address at the moment of the capture
  (\<open>None\<close> when the driver raises). \<open>LazyLoadScrollStep.run\<close> catches every exception
  and the exceptions of \<open>OpenAnalystRatingsStep.run\<close> are caught by the caller, so
  neither step can stop a run; what they change on the page is part of \<open>page_source\<close>.
\<close>

record browser =
  start :: bool
  load :: "string \<Rightarrow> bool"
  page_source :: "string \<Rightarrow> string option"

datatype error = ValueError | WebDriverException | DatabaseError

type_synonym 'a outcome = "(error + 'a) \<times> world"

text \<open>Sequencing: an exception skips what follows and keeps the world reached.\<close>

definition and_then :: "'a outcome \<Rightarrow> ('a \<Rightarrow> world \<Rightarrow> 'b outcome) \<Rightarrow> 'b outcome" where
  "and_then m f = (case m of (Inl e, w) \<Rightarrow> (Inl e, w) | (Inr x, w) \<Rightarrow> f x w)"

text \<open>\<open>dict.fromkeys(variants)\<close>: the distinct elements, in order of first occurrence.\<close>

definition dict_fromkeys :: "string list \<Rightarrow> string list" where
  "dict_fromkeys vs = fold (\<lambda>v d. if v \<in> set d then d else d @ [v]) vs []"

text \<open>The result dictionary, in insertion order.\<close>

type_synonym results = "(string \<times> string) list"

definition setdefault :: "string \<Rightarrow> string \<Rightarrow> results \<Rightarrow> results" where
  "setdefault k v d = (if map_of d k = None then d @ [(k, v)] else d)"

definition py_rstrip_chars :: "string \<Rightarrow> string \<Rightarrow> string" where
  "py_rstrip_chars cs s = rev (dropWhile (\<lambda>c. c \<in> set cs) (rev s))"

text \<open>
  \<open>Path(cache_dir) / f"{safe}_{variant}.html"\<close>, written as text: the directory, a
  separator and the file name.
\<close>

definition friendly_path :: "string \<Rightarrow> string \<Rightarrow> string \<Rightarrow> string" where
  "friendly_path cache_dir ticker variant =
     cache_dir @ ''/'' @ py_upper (py_strip ticker) @ ''_'' @ variant @ ''.html''"

definition exists_file :: "world \<Rightarrow> string \<Rightarrow> string \<Rightarrow> string \<Rightarrow> bool" where
  "exists_file w cache_dir ticker variant = (files w (friendly_path cache_dir ticker variant) \<noteq> None)"

definition write_file :: "string \<Rightarrow> string \<Rightarrow> string \<Rightarrow> string \<Rightarrow> world \<Rightarrow> string \<times> world" where
  "write_file cache_dir ticker variant html w =
     (friendly_path cache_dir ticker variant,
      w\<lparr>files := (files w)(friendly_path cache_dir ticker variant := Some html)\<rparr>)"

definition create_driver :: "browser \<Rightarrow> world \<Rightarrow> unit outcome" where
  "create_driver B w =
     (if start B then Inr () else Inl WebDriverException, w\<lparr>launched := launched w + 1\<rparr>)"

definition navigate :: "browser \<Rightarrow> string \<Rightarrow> world \<Rightarrow> unit outcome" where
  "navigate B url w =
     (if load B url then Inr () else Inl WebDriverException, w\<lparr>visited := visited w @ [url]\<rparr>)"

definition capture :: "browser \<Rightarrow> string \<Rightarrow> world \<Rightarrow> string outcome" where
  "capture B url w =
     (case page_source B url of None \<Rightarrow> Inl WebDriverException | Some html \<Rightarrow> Inr html, w)"

text \<open>
  The common end of the three steps: the captured page is written and its path recorded
  unless it reports that the symbol was not found.
\<close>

definition save_page ::
  "string \<Rightarrow> string \<Rightarrow> string \<Rightarrow> results \<Rightarrow> string \<Rightarrow> world \<Rightarrow> results outcome" where
  "save_page cache_dir ticker variant res html w =
     (if \<not> no_results html then
        (case write_file cache_dir ticker variant html w of
           (p, w') \<Rightarrow> (Inr (AList.update variant p res), w'))
      else (Inr res, w))"

definition overview_step ::
  "browser \<Rightarrow> string \<Rightarrow> string \<Rightarrow> string \<Rightarrow> results \<Rightarrow> world \<Rightarrow> results outcome" where
  "overview_step B cache_dir url ticker res w =
     (if \<not> exists_file w cache_dir ticker VARIANT_OVERVIEW then
        and_then (capture B url w) (save_page cache_dir ticker VARIANT_OVERVIEW res)
      else (Inr res, w))"

definition analysts_url :: "string \<Rightarrow> string" where
  "analysts_url url = py_rstrip_chars ''/'' url @ ''/analysts''"

definition earnings_url :: "string \<Rightarrow> string" where
  "earnings_url url = py_rstrip_chars ''/'' url @ ''/earnings''"

definition analyst_step ::
  "browser \<Rightarrow> string \<Rightarrow> string \<Rightarrow> string \<Rightarrow> results \<Rightarrow> world \<Rightarrow> results outcome" where
  "analyst_step B cache_dir url ticker res w =
     (if \<not> exists_file w cache_dir ticker VARIANT_ANALYST then
        and_then (navigate B (analysts_url url) w) (\<lambda>_ w1.
        and_then (capture B (analysts_url url) w1)
          (save_page cache_dir ticker VARIANT_ANALYST res))
      else (Inr res, w))"

definition earnings_step ::
  "browser \<Rightarrow> string \<Rightarrow> string \<Rightarrow> string \<Rightarrow> results \<Rightarrow> world \<Rightarrow> results outcome" where
  "earnings_step B cache_dir url ticker res w =
     (if \<not> exists_file w cache_dir ticker VARIANT_EARNINGS then
        and_then (navigate B (earnings_url url) w) (\<lambda>_ w1.
        and_then (capture B (earnings_url url) w1)
          (save_page cache_dir ticker VARIANT_EARNINGS res))
      else (Inr res, w))"

text \<open>The body of the \<open>try\<close> block, once the driver exists.\<close>

definition session ::
  "browser \<Rightarrow> string \<Rightarrow> string \<Rightarrow> string list \<Rightarrow> string \<Rightarrow> world \<Rightarrow> results outcome" where
  "session B cache_dir url order ticker w =
     (let want_overview = (VARIANT_OVERVIEW \<in> set order \<or> VARIANT_FULL \<in> set order);
          want_earnings = (VARIANT_FULL \<in> set order)
      in and_then (navigate B url w) (\<lambda>_ w1.
         and_then (if want_overview then
                     and_then (overview_step B cache_dir url ticker [] w1)
                       (analyst_step B cache_dir url ticker)
                   else (Inr [], w1)) (\<lambda>res w2.
         and_then (if want_earnings then earnings_step B cache_dir url ticker res w2
                   else (Inr res, w2)) (\<lambda>res w3.
         (Inr (if VARIANT_FULL \<in> set order then
                 setdefault VARIANT_EARNINGS (friendly_path cache_dir ticker VARIANT_EARNINGS)
                   (setdefault VARIANT_ANALYST (friendly_path cache_dir ticker VARIANT_ANALYST)
                     (setdefault VARIANT_OVERVIEW
                        (friendly_path cache_dir ticker VARIANT_OVERVIEW) res))
               else res), w3)))))"

text \<open>
  \<open>fetch_variants\<close>. The \<open>finally\<close> clause closes the session when the driver was
  created, also when the body raised; when the driver could not be created the
  exception leaves with no session to close.
\<close>

definition fetch_variants ::
  "browser \<Rightarrow> string \<Rightarrow> string \<Rightarrow> string list \<Rightarrow> string option \<Rightarrow> world \<Rightarrow> results outcome" where
  "fetch_variants B cache_dir url variants name_prefix w =
     (let order = dict_fromkeys variants in
      if order = [] \<or> list_ex (\<lambda>v. v \<notin> set ALLOWED) order then (Inl ValueError, w)
      else if \<not> truthy name_prefix then (Inl ValueError, w)
      else
        (let ticker = the name_prefix;
             path = friendly_path cache_dir ticker;
             cached = exists_file w cache_dir ticker
         in if VARIANT_FULL \<in> set order \<and> cached VARIANT_OVERVIEW \<and> cached VARIANT_ANALYST
                 \<and> cached VARIANT_EARNINGS
            then (Inr [(VARIANT_OVERVIEW, path VARIANT_OVERVIEW),
                       (VARIANT_ANALYST, path VARIANT_ANALYST),
                       (VARIANT_EARNINGS, path VARIANT_EARNINGS)], w)
            else if VARIANT_FULL \<notin> set order \<and> cached VARIANT_OVERVIEW \<and> cached VARIANT_ANALYST
            then (Inr [(VARIANT_OVERVIEW, path VARIANT_OVERVIEW),
                       (VARIANT_ANALYST, path VARIANT_ANALYST)], w)
            else
              (case create_driver B w of
                 (Inl e, w1) \<Rightarrow> (Inl e, w1)
               | (Inr _, w1) \<Rightarrow>
                   (case session B cache_dir url order ticker w1 of
                      (r, w2) \<Rightarrow> (r, w2\<lparr>quitted := quitted w2 + 1\<rparr>)))))"

text \<open>
  A cache directory holding the three documents of a ticker, one holding only two of
  them, and a site that answers every address, reporting on the ratings page that the
  symbol was not found.
\<close>

definition empty_world :: world where
  "empty_world = \<lparr>files = (\<lambda>p. None), launched = 0, quitted = 0, visited = []\<rparr>"

definition full_cache :: world where
  "full_cache =
     empty_world\<lparr>files := [''cache/AAPL_overview.html'' \<mapsto> ''<html>o</html>'',
                          ''cache/AAPL_analyst.html'' \<mapsto> ''<html>a</html>'',
                          ''cache/AAPL_earnings.html'' \<mapsto> ''<html>e</html>'']\<rparr>"

definition partial_cache :: world where
  "partial_cache =
     empty_world\<lparr>files := [''cache/AAPL_overview.html'' \<mapsto> ''<html>o</html>'',
                          ''cache/AAPL_analyst.html'' \<mapsto> ''<html>a</html>'']\<rparr>"

definition example_site :: browser where
  "example_site =
     \<lparr>start = True,
      load = (\<lambda>u. True),
      page_source = (\<lambda>u. if u = ''https://earningshub.com/quote/AAPL/analysts''
                          then Some ''<p>Symbol Not Found</p>''
                          else Some (''<html>'' @ u @ ''</html>''))\<rparr>"

section \<open>The reconciliation store (\<open>models.py\<close>, \<open>crud.py\<close>)\<close>

type_synonym date = "nat \<times> nat \<times> nat"

record Earnings =
  id' :: "int option"
  ticker :: string
  quarter :: "string option"
  report_date :: date
  rev_est :: "pyfloat option"
  rev_est_unit :: "string option"
  rev_act :: "pyfloat option"
  rev_act_unit :: "string option"
  rev_pct :: "pyfloat option"
  rev_status :: "string option"
  eps_est :: "pyfloat option"
  eps_act :: "pyfloat option"
  eps_pct :: "pyfloat option"
  eps_status :: "string option"
  created_at :: "datetime option"

datatype action = Inserted | Updated | Unchanged

record UpsertResult =
  row_id :: int
  action :: action

text \<open>
  The thirteen values bound to the statement, in the order of its columns: the ticker,
  the quarter, the report date, and the ten other values.
\<close>

type_synonym params = "string \<times> string option \<times> date \<times> pyfloat option \<times> string option
   \<times> pyfloat option \<times> string option \<times> pyfloat option \<times> string option \<times> pyfloat option
   \<times> pyfloat option \<times> pyfloat option \<times> string option"

definition params_of :: "Earnings \<Rightarrow> params" where
  "params_of e =
     (ticker e, quarter e, report_date e,
      rev_est e, rev_est_unit e, rev_act e, rev_act_unit e,
      rev_pct e, rev_status e, eps_est e, eps_act e, eps_pct e, eps_status e)"

text \<open>
  The cursor after \<open>execute\<close>, and the database as the code uses it: \<open>connect_db\<close>,
  which either raises or opens a connection, the statement
  \<open>INSERT ... ON DUPLICATE KEY UPDATE\<close> executed with the bound values, which either
  raises or leaves a cursor, \<open>commit\<close> and \<open>close\<close>. The database is a parameter.
\<close>

record cursor =
  rowcount :: int
  lastrowid :: int

record 'db engine =
  connect :: "'db \<Rightarrow> (error + unit) \<times> 'db"
  execute :: "params \<Rightarrow> 'db \<Rightarrow> (error + cursor) \<times> 'db"
  commit :: "'db \<Rightarrow> 'db"
  close :: "'db \<Rightarrow> 'db"

text \<open>
  \<open>upsert_earnings_row\<close> opens a connection of its own, executes, commits, reads the
  cursor and closes. An exception of \<open>execute\<close> leaves before the commit and before
  the connection is closed.
\<close>

definition upsert_earnings_row ::
  "'db engine \<Rightarrow> Earnings \<Rightarrow> 'db \<Rightarrow> (error + UpsertResult) \<times> 'db" where
  "upsert_earnings_row E e db =
     (case connect E db of
        (Inl err, db0) \<Rightarrow> (Inl err, db0)
      | (Inr _, db0) \<Rightarrow>
          (case execute E (params_of e) db0 of
             (Inl err, db1) \<Rightarrow> (Inl err, db1)
           | (Inr cur, db1) \<Rightarrow>
               (Inr \<lparr>row_id = lastrowid cur,
                     action = (if rowcount cur = 1 then Inserted
                               else if rowcount cur = 2 then Updated
                               else Unchanged)\<rparr>,
                close E (commit E db1))))"

record stats =
  inserted :: nat
  updated :: nat
  unchanged :: nat
  attempted :: nat

text \<open>
  The loop of \<open>load_earnings_rows\<close>, with the statistics, the size of the open batch
  and the database as its state. An exception of \<open>execute\<close> leaves the loop.
\<close>

fun load_loop ::
  "'db engine \<Rightarrow> int \<Rightarrow> Earnings list \<Rightarrow> stats \<Rightarrow> int \<Rightarrow> 'db \<Rightarrow> (error + stats \<times> int) \<times> 'db" where
  "load_loop E commit_every [] st batch db = (Inr (st, batch), db)"
| "load_loop E commit_every (e # rows) st batch db =
     (case execute E (params_of e) db of
        (Inl err, db1) \<Rightarrow> (Inl err, db1)
      | (Inr cur, db1) \<Rightarrow>
          (let st1 = (if rowcount cur = 1 then st\<lparr>inserted := inserted st + 1\<rparr>
                      else if rowcount cur = 2 then st\<lparr>updated := updated st + 1\<rparr>
                      else st\<lparr>unchanged := unchanged st + 1\<rparr>);
               st2 = st1\<lparr>attempted := attempted st1 + 1\<rparr>
           in if commit_every \<le> batch + 1
              then load_loop E commit_every rows st2 0 (commit E db1)
              else load_loop E commit_every rows st2 (batch + 1) db1))"

text \<open>
  \<open>load_earnings_rows\<close>: one connection for the whole batch, a last commit when rows
  are pending, and the connection closed in the \<open>finally\<close> clause, also when the loop
  raised.
\<close>

definition load_earnings_rows ::
  "'db engine \<Rightarrow> Earnings list \<Rightarrow> int \<Rightarrow> 'db \<Rightarrow> (error + stats) \<times> 'db" where
  "load_earnings_rows E rows commit_every db =
     (case connect E db of
        (Inl err, db0) \<Rightarrow> (Inl err, db0)
      | (Inr _, db0) \<Rightarrow>
          (case load_loop E commit_every rows
                  \<lparr>inserted = 0, updated = 0, unchanged = 0, attempted = 0\<rparr> 0 db0 of
             (Inl err, db1) \<Rightarrow> (Inl err, close E db1)
           | (Inr (st, batch), db1) \<Rightarrow>
               (Inr st, close E (if batch \<noteq> 0 then commit E db1 else db1))))"

subsection \<open>The table of \<open>create_tables_if_not_exists\<close> (\<open>db.py\<close>)\<close>

text \<open>
  What a column of the table keeps of a bound value, the server being in its default
  strict mode. A \<open>DECIMAL(p, 2)\<close> column rounds a number to two decimals, half away
  from zero, and refuses a number whose rounded value needs more than \<open>p - 2\<close> integer
  digits, and a value that is not a finite number. A \<open>VARCHAR(n)\<close> column refuses a
  text of more than \<open>n\<close> characters. A \<open>NOT NULL\<close> column refuses \<open>NULL\<close>. Dates are
  stored as given.
\<close>

definition decimal_scale2 :: "rat \<Rightarrow> rat" where
  "decimal_scale2 q =
     (if 0 \<le> q then of_int \<lfloor>q * 100 + 1 / 2\<rfloor> / 100
      else - of_int \<lfloor>- q * 100 + 1 / 2\<rfloor> / 100)"

fun decimal_ok :: "nat \<Rightarrow> pyfloat option \<Rightarrow> bool" where
  "decimal_ok p None = True"
| "decimal_ok p (Some (Finite q)) = (\<bar>decimal_scale2 q\<bar> < 10 ^ (p - 2))"
| "decimal_ok p (Some PosInf) = False"
| "decimal_ok p (Some NegInf) = False"
| "decimal_ok p (Some NaN) = False"

fun decimal_value :: "pyfloat option \<Rightarrow> rat option" where
  "decimal_value (Some (Finite q)) = Some (decimal_scale2 q)"
| "decimal_value (Some PosInf) = None"
| "decimal_value (Some NegInf) = None"
| "decimal_value (Some NaN) = None"
| "decimal_value None = None"

definition varchar_ok :: "nat \<Rightarrow> string option \<Rightarrow> bool" where
  "varchar_ok n v = (case v of None \<Rightarrow> True | Some t \<Rightarrow> length t \<le> n)"

text \<open>
  The statement is accepted when every value fits its column: \<open>ticker VARCHAR(10) NOT
  NULL\<close>, \<open>quarter VARCHAR(10) NOT NULL\<close>, \<open>rev_est\<close> and \<open>rev_act DECIMAL(20, 2)\<close>,
  the units \<open>VARCHAR(2)\<close>, the percentages \<open>DECIMAL(8, 2)\<close>, the statuses
  \<open>VARCHAR(10)\<close>, \<open>eps_est\<close> and \<open>eps_act DECIMAL(12, 2)\<close>.
\<close>

definition accepted :: "params \<Rightarrow> bool" where
  "accepted p =
     (case p of (tk, q, d, re, reu, ra, rau, rp, rs, ee, ea, ep, es) \<Rightarrow>
        length tk \<le> 10 \<and> q \<noteq> None \<and> varchar_ok 10 q
        \<and> decimal_ok 20 re \<and> varchar_ok 2 reu \<and> decimal_ok 20 ra \<and> varchar_ok 2 rau
        \<and> decimal_ok 8 rp \<and> varchar_ok 10 rs
        \<and> decimal_ok 12 ee \<and> decimal_ok 12 ea \<and> decimal_ok 8 ep \<and> varchar_ok 10 es)"

text \<open>The values of the eleven mutable columns, as the table keeps them.\<close>

type_synonym stored =
  "string \<times> rat option \<times> string option \<times> rat option \<times> string option
   \<times> rat option \<times> string option \<times> rat option \<times> rat option \<times> rat option \<times> string option"

definition stored_of :: "params \<Rightarrow> stored" where
  "stored_of p =
     (case p of (tk, q, d, re, reu, ra, rau, rp, rs, ee, ea, ep, es) \<Rightarrow>
        (or_empty q, decimal_value re, reu, decimal_value ra, rau,
         decimal_value rp, rs, decimal_value ee, decimal_value ea, decimal_value ep, es))"

text \<open>
  The unique key \<open>uq_ticker_date\<close>. Two tickers are the same key when the collation
  of the column, which depends on the server, gives them the same sort key; the
  collation is a parameter.
\<close>

definition key_of :: "(string \<Rightarrow> string) \<Rightarrow> params \<Rightarrow> string \<times> date" where
  "key_of ck p = (case p of (tk, q, d, rest) \<Rightarrow> (ck tk, d))"

text \<open>
  The rows that are committed, the rows as the open connection sees them, and the
  counter of \<open>AUTO_INCREMENT\<close>. A connection starts from the committed rows; what it
  has not committed when it is closed is rolled back.
\<close>

record store =
  committed :: "string \<times> date \<Rightarrow> (int \<times> stored) option"
  working :: "string \<times> date \<Rightarrow> (int \<times> stored) option"
  next_id :: int

text \<open>
  Modelled from the spec: the storage engine, a MySQL server behind
  \<open>mysql.connector\<close>, which is not part of the repository, on the table that
  \<open>db.py\<close> creates. The table is unique on (ticker, report date). A statement whose
  values the table refuses raises. A statement whose key is not in the table creates a
  row with a fresh identifier and reports one affected row. A statement whose key is in
  the table overwrites the mutable columns with the new values and reports two affected
  rows when at least one column changes, zero when no value changes; in both cases of a
  conflict the identifier reported is the one of the existing row, and a row is never
  deleted.
\<close>

definition spec_execute :: "(string \<Rightarrow> string) \<Rightarrow> params \<Rightarrow> store \<Rightarrow> (error + cursor) \<times> store" where
  "spec_execute ck p s =
     (if \<not> accepted p then (Inl DatabaseError, s)
      else
        (case working s (key_of ck p) of
           None \<Rightarrow>
             (Inr \<lparr>rowcount = 1, lastrowid = next_id s\<rparr>,
              s\<lparr>working := (working s)(key_of ck p := Some (next_id s, stored_of p)),
                next_id := next_id s + 1\<rparr>)
         | Some (i, m) \<Rightarrow>
             if m = stored_of p then (Inr \<lparr>rowcount = 0, lastrowid = i\<rparr>, s)
             else (Inr \<lparr>rowcount = 2, lastrowid = i\<rparr>,
                   s\<lparr>working := (working s)(key_of ck p := Some (i, stored_of p))\<rparr>)))"

definition spec_engine :: "(string \<Rightarrow> string) \<Rightarrow> store engine" where
  "spec_engine ck =
     \<lparr>connect = (\<lambda>s. (Inr (), s\<lparr>working := committed s\<rparr>)),
      execute = spec_execute ck,
      commit = (\<lambda>s. s\<lparr>committed := working s\<rparr>),
      close = (\<lambda>s. s\<lparr>working := committed s\<rparr>)\<rparr>"

text \<open>
  A record keeps its numbers in the table as they are when each of them has at most two
  decimals.
\<close>

fun two_decimals :: "pyfloat option \<Rightarrow> bool" where
  "two_decimals None = True"
| "two_decimals (Some (Finite q)) = (decimal_scale2 q = q)"
| "two_decimals (Some PosInf) = False"
| "two_decimals (Some NegInf) = False"
| "two_decimals (Some NaN) = False"

definition stored_as_given :: "Earnings \<Rightarrow> bool" where
  "stored_as_given e =
     (two_decimals (rev_est e) \<and> two_decimals (rev_act e) \<and> two_decimals (rev_pct e)
      \<and> two_decimals (eps_est e) \<and> two_decimals (eps_act e) \<and> two_decimals (eps_pct e))"

text \<open>
  An empty table, a record, the record with another actual EPS, the record with an
  actual EPS that differs in the third decimal, and the record without a quarter.
\<close>

definition empty_store :: store where
  "empty_store = \<lparr>committed = (\<lambda>k. None), working = (\<lambda>k. None), next_id = 1\<rparr>"

definition example_earnings :: Earnings where
  "example_earnings =
     \<lparr>id' = None, ticker = ''AAPL'', quarter = Some ''Q3 2025'', report_date = (2025, 7, 31),
      rev_est = Some (Finite (893 / 10)), rev_est_unit = Some ''B'',
      rev_act = Some (Finite (9404 / 100)), rev_act_unit = Some ''B'',
      rev_pct = Some (Finite (531 / 100)), rev_status = Some ''Beat'',
      eps_est = Some (Finite (143 / 100)), eps_act = Some (Finite (157 / 100)),
      eps_pct = Some (Finite (979 / 100)), eps_status = Some ''Beat'', created_at = None\<rparr>"

definition revised_earnings :: Earnings where
  "revised_earnings = example_earnings\<lparr>eps_act := Some (Finite (158 / 100))\<rparr>"

definition subscale_earnings :: Earnings where
  "subscale_earnings = example_earnings\<lparr>eps_act := Some (Finite (1574 / 1000))\<rparr>"

definition no_quarter_earnings :: Earnings where
  "no_quarter_earnings = example_earnings\<lparr>quarter := None\<rparr>"

section \<open>Properties of the value parsers\<close>

lemma parse_one_value_examples:
  "parse_one_value (Some ''$12.3B est'') =
     \<lparr>pv_value = Some ''12.3'', pv_unit = Some ''B'', pv_is_est = Some True\<rparr>"
  "parse_one_value (Some ''--'') = absent_value"
  "parse_one_value (Some []) = absent_value"
  "parse_one_value None = absent_value"
  by code_simp+

text \<open>
  C5. The marker is detected as a whole word without regard to case, among
  \<open>est\<close>, \<open>estimate\<close> and \<open>actual\<close>, but it is removed by the case-sensitive
  \<open>replace\<close> of the substrings \<open>est\<close> and \<open>actual\<close>. On the marker word
  \<open>estimate\<close> the removal leaves \<open>imate\<close> behind: the token \<open>$12.3B estimate\<close>
  is marked as an estimate, its marker word is not stripped, the remainder does not
  match the number pattern, and the value is the text \<open>12.3B imate\<close> with no unit.
\<close>

theorem parse_one_value_estimate_residue:
  "parse_one_value (Some ''$12.3B estimate'') =
     \<lparr>pv_value = Some ''12.3B imate'', pv_unit = None, pv_is_est = Some True\<rparr>"
  by code_simp

text \<open>
  C4. No token: estimate and actual are both empty. One token: it fills the estimate
  only when it is marked as an estimate, and the actual only otherwise. Two tokens: a
  first token marked estimate is the estimate and the second token the actual; a first
  token marked actual is the actual and the second token the estimate; an unmarked
  first token takes the slot that the marker of the second leaves free; when neither
  is marked the first is the estimate and the second the actual. (When both tokens
  carry the same marker, the first keeps the marked slot.)
\<close>

theorem parse_est_act_disambiguation:
  "parse_est_act [] = \<lparr>est = no_value, act = no_value\<rparr>
   \<and> (pv_is_est (tok v) = Some True \<longrightarrow>
        parse_est_act [v] = \<lparr>est = value_of (tok v), act = no_value\<rparr>)
   \<and> (pv_is_est (tok v) \<noteq> Some True \<longrightarrow>
        parse_est_act [v] = \<lparr>est = no_value, act = value_of (tok v)\<rparr>)
   \<and> (pv_is_est (tok v) = Some True \<longrightarrow>
        parse_est_act [v, w] = \<lparr>est = value_of (tok v), act = value_of (tok w)\<rparr>)
   \<and> (pv_is_est (tok v) = Some False \<longrightarrow>
        parse_est_act [v, w] = \<lparr>est = value_of (tok w), act = value_of (tok v)\<rparr>)
   \<and> (pv_is_est (tok v) = None \<and> pv_is_est (tok w) = Some True \<longrightarrow>
        parse_est_act [v, w] = \<lparr>est = value_of (tok w), act = value_of (tok v)\<rparr>)
   \<and> (pv_is_est (tok v) = None \<and> pv_is_est (tok w) = Some False \<longrightarrow>
        parse_est_act [v, w] = \<lparr>est = value_of (tok v), act = value_of (tok w)\<rparr>)
   \<and> (pv_is_est (tok v) = None \<and> pv_is_est (tok w) = None \<longrightarrow>
        parse_est_act [v, w] = \<lparr>est = value_of (tok v), act = value_of (tok w)\<rparr>)"
  by (auto simp: parse_est_act_def Let_def)

theorem parse_est_act_disambiguation_witness:
  "parse_est_act [''1.2B est''] =
     \<lparr>est = \<lparr>vu_value = Some ''1.2'', vu_unit = Some ''B''\<rparr>, act = no_value\<rparr>
   \<and> parse_est_act [''1.2B''] =
     \<lparr>est = no_value, act = \<lparr>vu_value = Some ''1.2'', vu_unit = Some ''B''\<rparr>\<rparr>
   \<and> parse_est_act [''1.2 est'', ''1.3''] =
     \<lparr>est = \<lparr>vu_value = Some ''1.2'', vu_unit = None\<rparr>,
      act = \<lparr>vu_value = Some ''1.3'', vu_unit = None\<rparr>\<rparr>
   \<and> parse_est_act [''1.3 actual'', ''1.2''] =
     \<lparr>est = \<lparr>vu_value = Some ''1.2'', vu_unit = None\<rparr>,
      act = \<lparr>vu_value = Some ''1.3'', vu_unit = None\<rparr>\<rparr>
   \<and> parse_est_act [''1.3'', ''1.2 est''] =
     \<lparr>est = \<lparr>vu_value = Some ''1.2'', vu_unit = None\<rparr>,
      act = \<lparr>vu_value = Some ''1.3'', vu_unit = None\<rparr>\<rparr>
   \<and> parse_est_act [''1.2'', ''1.3 actual''] =
     \<lparr>est = \<lparr>vu_value = Some ''1.2'', vu_unit = None\<rparr>,
      act = \<lparr>vu_value = Some ''1.3'', vu_unit = None\<rparr>\<rparr>
   \<and> parse_est_act [''1.2'', ''1.3''] =
     \<lparr>est = \<lparr>vu_value = Some ''1.2'', vu_unit = None\<rparr>,
      act = \<lparr>vu_value = Some ''1.3'', vu_unit = None\<rparr>\<rparr>"
proof -
  have t1: "tok ''1.2B est'' =
      \<lparr>pv_value = Some ''1.2'', pv_unit = Some ''B'', pv_is_est = Some True\<rparr>"
    by code_simp
  have t2: "tok ''1.2B'' = \<lparr>pv_value = Some ''1.2'', pv_unit = Some ''B'', pv_is_est = None\<rparr>"
    by code_simp
  have t3: "tok ''1.2 est'' = \<lparr>pv_value = Some ''1.2'', pv_unit = None, pv_is_est = Some True\<rparr>"
    by code_simp
  have t4: "tok ''1.3'' = \<lparr>pv_value = Some ''1.3'', pv_unit = None, pv_is_est = None\<rparr>"
    by code_simp
  have t5: "tok ''1.3 actual'' =
      \<lparr>pv_value = Some ''1.3'', pv_unit = None, pv_is_est = Some False\<rparr>"
    by code_simp
  have t6: "tok ''1.2'' = \<lparr>pv_value = Some ''1.2'', pv_unit = None, pv_is_est = None\<rparr>"
    by code_simp
  show ?thesis
    using parse_est_act_disambiguation [of "''1.2B est''" "''1.3''"]
          parse_est_act_disambiguation [of "''1.2B''" "''1.3''"]
          parse_est_act_disambiguation [of "''1.2 est''" "''1.3''"]
          parse_est_act_disambiguation [of "''1.3 actual''" "''1.2''"]
          parse_est_act_disambiguation [of "''1.3''" "''1.2 est''"]
          parse_est_act_disambiguation [of "''1.2''" "''1.3 actual''"]
          parse_est_act_disambiguation [of "''1.2''" "''1.3''"]
    by (simp add: t1 t2 t3 t4 t5 t6 value_of_def)
qed

section \<open>Properties of the status and of the dates\<close>

lemma float_lt_not_ge: "float_lt u v \<Longrightarrow> \<not> float_ge u v"
  by (cases u; cases v) auto

text \<open>
  C2. With a percentage, the status is decided by the percentage alone, whatever the
  actual and the estimate are: a non-negative percentage gives Beat and a negative one
  gives Miss. Without a percentage, when the actual and the estimate are both present
  and both convert to numbers, the status is Beat when actual \<open>\<ge>\<close> estimate and Miss
  when actual \<open><\<close> estimate. When the percentage is absent and the actual or the
  estimate is absent or does not convert, the status is unknown. The three examples
  of the specification: +2.5 gives Beat, -1.0 gives Miss, and actual 5.0 against
  estimate 4.0 without a percentage gives Beat.
\<close>

theorem determine_status_cases:
  "(float_ge p (Finite 0) \<longrightarrow> determine_status tf (Some p) a e = Some ''Beat'')
   \<and> (float_lt p (Finite 0) \<longrightarrow> determine_status tf (Some p) a e = Some ''Miss'')
   \<and> (0 \<le> q \<longrightarrow> determine_status tf (Some (Finite q)) a e = Some ''Beat'')
   \<and> (q < 0 \<longrightarrow> determine_status tf (Some (Finite q)) a e = Some ''Miss'')
   \<and> (py_float tf x = Some u \<and> py_float tf y = Some v \<and> float_ge u v \<longrightarrow>
        determine_status tf None (Some x) (Some y) = Some ''Beat'')
   \<and> (py_float tf x = Some u \<and> py_float tf y = Some v \<and> float_lt u v \<longrightarrow>
        determine_status tf None (Some x) (Some y) = Some ''Miss'')
   \<and> (a = None \<or> e = None \<or> py_float tf x = None \<and> a = Some x
        \<or> py_float tf y = None \<and> e = Some y \<longrightarrow>
        determine_status tf None a e = None)
   \<and> determine_status tf (Some (Finite (5 / 2))) a e = Some ''Beat''
   \<and> determine_status tf (Some (Finite (- 1))) a e = Some ''Miss''
   \<and> determine_status tf None (Some (Num (Finite 5))) (Some (Num (Finite 4))) = Some ''Beat''"
  by (auto simp: determine_status_def dest: float_lt_not_ge split: option.splits)

theorem determine_status_cases_witness:
  "determine_status plain_float (Some (Finite (163 / 100))) None None = Some ''Beat''
   \<and> determine_status plain_float (Some (Finite (- 7 / 2))) (Some (Str ''9'')) (Some (Str ''1''))
       = Some ''Miss''
   \<and> determine_status plain_float None (Some (Str ''1.25'')) (Some (Str ''1.20'')) = Some ''Beat''
   \<and> determine_status plain_float None (Some (Str ''1.20'')) (Some (Num (Finite 2))) = Some ''Miss''
   \<and> determine_status plain_float None (Some (Str ''TBD'')) (Some (Str ''1.20'')) = None"
proof -
  have f1: "py_float plain_float (Str ''1.25'') = Some (Finite (5 / 4))"
    by code_simp
  have f2: "py_float plain_float (Str ''1.20'') = Some (Finite (6 / 5))"
    by code_simp
  have f3: "py_float plain_float (Str ''TBD'') = None"
    by code_simp
  have f4: "py_float plain_float (Num (Finite 2)) = Some (Finite 2)"
    by simp
  have g1: "float_ge (Finite (163 / 100)) (Finite 0)" "float_lt (Finite (- 7 / 2)) (Finite 0)"
    "float_ge (Finite (5 / 4)) (Finite (6 / 5))" "float_lt (Finite (6 / 5)) (Finite 2)"
    by simp_all
  show ?thesis
    using determine_status_cases [of "Finite (163 / 100)" plain_float None None 0
            "Str ''1.25''" "Finite (5 / 4)" "Str ''1.20''" "Finite (6 / 5)"]
          determine_status_cases [of "Finite (- 7 / 2)" plain_float "Some (Str ''9'')"
            "Some (Str ''1'')" 0 "Str ''1.20''" "Finite (6 / 5)" "Num (Finite 2)" "Finite 2"]
          determine_status_cases [of "Finite 0" plain_float "Some (Str ''TBD'')"
            "Some (Str ''1.20'')" 0 "Str ''TBD''" "Finite 0" "Str ''1.20''" "Finite 0"]
          f1 f2 f3 f4 g1
    by simp
qed

lemma parse_date_time_structure:
  assumes "truthy (clean_text raw)"
  shows "(strptime_full (strip_suffixes (the (clean_text raw))) = Some dt
            \<and> fmt_time_portable L dt = Some t \<longrightarrow>
          parse_date_time L raw = (Some (strftime_mdY L dt), Some t))
       \<and> (strptime_full (strip_suffixes (the (clean_text raw))) = None
            \<and> strptime_date (strip_suffixes (the (clean_text raw))) = Some dt \<longrightarrow>
          parse_date_time L raw = (Some (strftime_mdY L dt), None))
       \<and> (strptime_full (strip_suffixes (the (clean_text raw))) = None
            \<and> strptime_date (strip_suffixes (the (clean_text raw))) = None \<longrightarrow>
          parse_date_time L raw = (Some (strip_suffixes (the (clean_text raw))), None))"
  using assms by (simp add: parse_date_time_def Let_def)

lemma parse_date_time_examples:
  "parse_date_time msvcrt (Some ''Wed, Jul 31, 2025, 4:00 PM'') =
     (Some ''07/31/2025'', Some ''4:00 PM'')"
  "parse_date_time glibc (Some ''Jul 31, 2025'') = (Some ''07/31/2025'', None)"
  "parse_date_time msvcrt (Some ''Jul 31, 2025'') = (Some ''07/31/2025'', None)"
  "parse_date_time glibc (Some ''TBD EST'') = (Some ''TBD'', None)"
  by code_simp+

text \<open>
  C3. With the GNU C library, where the flag of \<open>%#I\<close> does not remove the leading
  zero and the directive is accepted, so that the fallback \<open>%-I\<close> is never tried, the
  text \<open>Wed, Jul 31, 2025, 4:00 PM\<close> parses to the date \<open>07/31/2025\<close> and to the time
  \<open>04:00 PM\<close>, not \<open>4:00 PM\<close>.
\<close>

theorem parse_date_time_glibc_padded_hour:
  "parse_date_time glibc (Some ''Wed, Jul 31, 2025, 4:00 PM'') =
     (Some ''07/31/2025'', Some ''04:00 PM'')"
  by code_simp

section \<open>Properties of the history table\<close>


lemma drop_duplicates_keys:
  "set (map key (drop_duplicates key seen xs)) = set (map key xs) - set seen"
  by (induction xs arbitrary: seen) auto

lemma drop_duplicates_distinct:
  "distinct (map key (drop_duplicates key seen xs))"
proof (induction xs arbitrary: seen)
  case Nil
  then show ?case by simp
next
  case (Cons x xs)
  have "key x \<notin> set (map key (drop_duplicates key (key x # seen) xs))"
    unfolding drop_duplicates_keys by simp
  with Cons show ?case by simp
qed

lemma drop_duplicates_first:
  "y \<in> set (drop_duplicates key seen xs) \<Longrightarrow> find (\<lambda>x. key x = key y) xs = Some y"
proof (induction xs arbitrary: seen)
  case Nil
  then show ?case by simp
next
  case (Cons x xs)
  show ?case
  proof (cases "key x \<in> set seen")
    case True
    with Cons.prems have y: "y \<in> set (drop_duplicates key seen xs)" by simp
    then have "key y \<in> set (map key (drop_duplicates key seen xs))" by force
    then have "key y \<notin> set seen" unfolding drop_duplicates_keys by simp
    with True have "key x \<noteq> key y" by auto
    with Cons.IH [OF y] show ?thesis by simp
  next
    case False
    show ?thesis
    proof (cases "y = x")
      case True
      then show ?thesis by simp
    next
      case ne: False
      with False Cons.prems have y: "y \<in> set (drop_duplicates key (key x # seen) xs)" by simp
      then have "key y \<in> set (map key (drop_duplicates key (key x # seen) xs))" by force
      then have "key y \<noteq> key x" unfolding drop_duplicates_keys by simp
      with Cons.IH [OF y] show ?thesis by simp
    qed
  qed
qed

lemma drop_duplicates_id:
  "distinct (map key xs) \<Longrightarrow> set (map key xs) \<inter> set seen = {} \<Longrightarrow>
   drop_duplicates key seen xs = xs"
  by (induction xs arbitrary: seen) auto

lemma drop_duplicates_snoc:
  "drop_duplicates key seen (xs @ [x]) =
     drop_duplicates key seen xs
       @ (if key x \<in> set seen \<or> key x \<in> key ` set xs then [] else [x])"
  by (induction xs arbitrary: seen) auto

lemma drop_duplicates_positions:
  "drop_duplicates key [] xs =
     map (nth xs) (filter (\<lambda>i. \<not> list_ex (\<lambda>x. key x = key (xs ! i)) (take i xs)) [0..<length xs])"
proof (induction xs rule: rev_induct)
  case Nil
  then show ?case by simp
next
  case (snoc x xs)
  let ?P = "\<lambda>i. \<not> list_ex (\<lambda>y. key y = key ((xs @ [x]) ! i)) (take i (xs @ [x]))"
  have m: "map (nth (xs @ [x])) (filter ?P [0..<length xs])
           = map (nth xs)
               (filter (\<lambda>i. \<not> list_ex (\<lambda>y. key y = key (xs ! i)) (take i xs)) [0..<length xs])"
    by (intro map_cong filter_cong refl) (auto simp: nth_append)
  have l: "list_ex (\<lambda>y. key y = key x) xs \<longleftrightarrow> key x \<in> key ` set xs"
    unfolding list_ex_iff image_iff by metis
  have t: "map (nth (xs @ [x])) (filter ?P [length xs])
           = (if key x \<in> key ` set xs then [] else [x])"
    using l by simp
  have u: "[0..<length (xs @ [x])] = [0..<length xs] @ [length xs]"
    by simp
  show ?case
    unfolding drop_duplicates_snoc snoc.IH u filter_append map_append m t
    by simp
qed

lemma row_to_map_no_cells: "row_to_map headers [] = (\<lambda>k. None)"
proof -
  have "fold (\<lambda>(i, key) row. row(key := None)) ps (\<lambda>k. None) = (\<lambda>k. None)" for ps :: "(nat \<times> string) list"
    by (induction ps) (auto simp: fun_upd_idem)
  then show ?thesis by (simp add: row_to_map_def)
qed

lemma transform_row_none_iff:
  "transform_row L tf f2 tk row = None \<longleftrightarrow>
     \<not> truthy (row_quarter row) \<and> \<not> truthy (row_date L row)
     \<and> \<not> truthy (vu_value (est (row_rev row))) \<and> \<not> truthy (vu_value (act (row_rev row)))
     \<and> \<not> truthy (vu_value (est (row_eps row))) \<and> \<not> truthy (vu_value (act (row_eps row)))"
  by (simp add: transform_row_def Let_def)

lemma truthy_or_empty: "truthy a \<longleftrightarrow> or_empty a \<noteq> []"
  by (cases a) (simp_all add: or_empty_def)

lemma transform_row_some:
  "transform_row L tf f2 tk row = Some r \<Longrightarrow>
     h_quarter r = or_empty (row_quarter row) \<and> h_date r = or_empty (row_date L row)
     \<and> h_rev_est r = or_empty (vu_value (est (row_rev row)))
     \<and> h_rev_est_unit r = or_empty (vu_unit (est (row_rev row)))
     \<and> h_rev_act r = or_empty (vu_value (act (row_rev row)))
     \<and> h_rev_act_unit r = or_empty (vu_unit (act (row_rev row)))
     \<and> h_eps_est r = or_empty (vu_value (est (row_eps row)))
     \<and> h_eps_act r = or_empty (vu_value (act (row_eps row)))"
  by (auto simp: transform_row_def Let_def split: if_splits)

lemma transform_row_no_cells: "transform_row L tf f2 tk (row_to_map headers []) = None"
  unfolding transform_row_none_iff row_to_map_no_cells
  by (simp add: row_quarter_def row_date_def row_rev_def row_eps_def cell_tokens_def py_or_def
      normalize_quarter_def clean_text_def parse_date_time_def parse_est_act_def no_value_def)

lemma parse_rows_map_filter:
  assumes "find_earnings_table soup = Some t" "parse_headers t \<noteq> []"
  shows "parse_rows L tf f2 tk soup =
           List.map_filter (\<lambda>cells. transform_row L tf f2 tk (row_to_map (parse_headers t) cells))
             (tl (table_rows t))"
proof -
  have "concat (map (\<lambda>cells. if cells = [] then []
            else (case transform_row L tf f2 tk (row_to_map hs cells) of
                    None \<Rightarrow> [] | Some parsed \<Rightarrow> [parsed])) rs)
        = List.map_filter (\<lambda>cells. transform_row L tf f2 tk (row_to_map hs cells)) rs"
    for hs rs
    by (induction rs) (auto simp: List.map_filter_simps transform_row_no_cells split: option.splits)
  with assms show ?thesis by (simp add: parse_rows_def)
qed

lemma parse_rows_populated:
  assumes "r \<in> set (parse_rows L tf f2 tk soup)"
  shows "\<exists>row. transform_row L tf f2 tk row = Some r"
  using assms
  by (auto simp: parse_rows_def Let_def split: option.splits if_splits)

lemma example_parse_rows:
  "parse_rows glibc plain_float fixed2 ''AAPL'' [example_table] = example_rows"
  by code_simp

lemma dated_parse_rows:
  "parse_rows glibc plain_float fixed2 ''AAPL'' [dated_table] = dated_rows"
  by code_simp

text \<open>
  C7. In the output of \<open>parse_earnings\<close> no two rows have the same quarter and the
  same date; the (quarter, date) pairs of the output are those of the parsed rows; the
  row of the output with a given pair is the first parsed row, in document order, with
  that quarter and that date. The output is made, in document order, of the parsed rows
  that no earlier parsed row equals in both the quarter and the date; so when no two
  parsed rows have the same quarter and the same date, every row is retained.
\<close>

theorem parse_earnings_first_occurrence:
  "distinct (map (\<lambda>r. (h_quarter r, h_date r)) (parse_earnings L tf f2 tk soup))
   \<and> set (map (\<lambda>r. (h_quarter r, h_date r)) (parse_earnings L tf f2 tk soup))
       = set (map (\<lambda>r. (h_quarter r, h_date r)) (parse_rows L tf f2 tk soup))
   \<and> (\<forall>y \<in> set (parse_earnings L tf f2 tk soup).
         find (\<lambda>x. h_quarter x = h_quarter y \<and> h_date x = h_date y)
           (parse_rows L tf f2 tk soup) = Some y)
   \<and> parse_earnings L tf f2 tk soup =
       map (nth (parse_rows L tf f2 tk soup))
         (filter (\<lambda>i. \<not> list_ex (\<lambda>x. h_quarter x = h_quarter (parse_rows L tf f2 tk soup ! i)
                                      \<and> h_date x = h_date (parse_rows L tf f2 tk soup ! i))
                         (take i (parse_rows L tf f2 tk soup)))
            [0..<length (parse_rows L tf f2 tk soup)])
   \<and> (distinct (map (\<lambda>r. (h_quarter r, h_date r)) (parse_rows L tf f2 tk soup)) \<longrightarrow>
         parse_earnings L tf f2 tk soup = parse_rows L tf f2 tk soup)"
proof -
  let ?K = "\<lambda>r. (h_quarter r, h_date r)"
  let ?rows = "parse_rows L tf f2 tk soup"
  have q: "quarter_date = ?K"
    by (simp add: quarter_date_def fun_eq_iff)
  have 1: "distinct (map ?K (drop_duplicates ?K [] ?rows))"
    by (rule drop_duplicates_distinct)
  have 2: "set (map ?K (drop_duplicates ?K [] ?rows)) = set (map ?K ?rows)"
    using drop_duplicates_keys [of ?K "[]" ?rows] by simp
  have 3: "\<forall>y \<in> set (drop_duplicates ?K [] ?rows).
             find (\<lambda>x. h_quarter x = h_quarter y \<and> h_date x = h_date y) ?rows = Some y"
    using drop_duplicates_first [of _ ?K "[]" ?rows] by simp
  have 4: "drop_duplicates ?K [] ?rows =
       map (nth ?rows)
         (filter (\<lambda>i. \<not> list_ex (\<lambda>x. h_quarter x = h_quarter (?rows ! i)
                                      \<and> h_date x = h_date (?rows ! i))
                         (take i ?rows))
            [0..<length ?rows])"
    using drop_duplicates_positions [of ?K ?rows] by simp
  have 5: "distinct (map ?K ?rows) \<longrightarrow> drop_duplicates ?K [] ?rows = ?rows"
    using drop_duplicates_id [of ?K ?rows "[]"] by simp
  show ?thesis
    unfolding parse_earnings_def q
    by (intro conjI 1 2 3 4 5)
qed

theorem parse_earnings_first_occurrence_witness:
  "parse_rows glibc plain_float fixed2 ''AAPL'' [dated_table] = dated_rows
   \<and> map (\<lambda>r. (h_quarter r, h_date r, h_rev_act r)) dated_rows
       = [(''Q3 2025'', ''07/31/2025'', ''94''), (''Q3 2025'', ''07/31/2025'', ''95''),
          (''Q3 2025'', ''08/01/2025'', ''96''), (''Q2 2025'', ''07/31/2025'', ''97'')]
   \<and> parse_earnings glibc plain_float fixed2 ''AAPL'' [dated_table]
       = [dated_rows ! 0, dated_rows ! 2, dated_rows ! 3]
   \<and> map (\<lambda>r. (h_quarter r, h_date r, h_rev_act r))
         (parse_earnings glibc plain_float fixed2 ''AAPL'' [dated_table])
       = [(''Q3 2025'', ''07/31/2025'', ''94''), (''Q3 2025'', ''08/01/2025'', ''96''),
          (''Q2 2025'', ''07/31/2025'', ''97'')]
   \<and> distinct (map (\<lambda>r. (h_quarter r, h_date r))
                 (parse_earnings glibc plain_float fixed2 ''AAPL'' [dated_table]))
   \<and> find (\<lambda>x. h_quarter x = h_quarter (dated_rows ! 0) \<and> h_date x = h_date (dated_rows ! 0))
         (parse_rows glibc plain_float fixed2 ''AAPL'' [dated_table]) = Some (dated_rows ! 0)
   \<and> parse_earnings glibc plain_float fixed2 ''AAPL'' [example_table]
       = [example_rows ! 0, example_rows ! 2]"
proof -
  have p: "map (\<lambda>r. (h_quarter r, h_date r, h_rev_act r)) dated_rows
       = [(''Q3 2025'', ''07/31/2025'', ''94''), (''Q3 2025'', ''07/31/2025'', ''95''),
          (''Q3 2025'', ''08/01/2025'', ''96''), (''Q2 2025'', ''07/31/2025'', ''97'')]"
    by (simp add: dated_rows_def)
  have i: "filter (\<lambda>i. \<not> list_ex (\<lambda>x. h_quarter x = h_quarter (dated_rows ! i)
                                     \<and> h_date x = h_date (dated_rows ! i))
                        (take i dated_rows)) [0..<length dated_rows] = [0, 2, 3]"
    by (simp add: dated_rows_def upt_rec take_Cons')
  have j: "filter (\<lambda>i. \<not> list_ex (\<lambda>x. h_quarter x = h_quarter (example_rows ! i)
                                     \<and> h_date x = h_date (example_rows ! i))
                        (take i example_rows)) [0..<length example_rows] = [0, 2]"
    by (simp add: example_rows_def upt_rec take_Cons')
  have e: "parse_earnings glibc plain_float fixed2 ''AAPL'' [dated_table]
       = [dated_rows ! 0, dated_rows ! 2, dated_rows ! 3]"
    "parse_earnings glibc plain_float fixed2 ''AAPL'' [example_table]
       = [example_rows ! 0, example_rows ! 2]"
    using parse_earnings_first_occurrence [of glibc plain_float fixed2 "''AAPL''" "[dated_table]"]
          parse_earnings_first_occurrence [of glibc plain_float fixed2 "''AAPL''" "[example_table]"]
          dated_parse_rows example_parse_rows i j
    by simp_all
  have m: "dated_rows ! 0 \<in> set (parse_earnings glibc plain_float fixed2 ''AAPL'' [dated_table])"
    by (simp add: e)
  have a: "map (\<lambda>r. (h_quarter r, h_date r, h_rev_act r))
             [dated_rows ! 0, dated_rows ! 2, dated_rows ! 3]
       = [(''Q3 2025'', ''07/31/2025'', ''94''), (''Q3 2025'', ''08/01/2025'', ''96''),
          (''Q2 2025'', ''07/31/2025'', ''97'')]"
    by (simp add: dated_rows_def)
  show ?thesis
    using parse_earnings_first_occurrence [of glibc plain_float fixed2 "''AAPL''" "[dated_table]"]
          dated_parse_rows e m a p
    by auto
qed

text \<open>
  C8. \<open>_transform_row\<close> returns no record exactly when the quarter, the date, the
  revenue estimate, the revenue actual, the EPS estimate and the EPS actual are all
  absent after normalisation; a record it returns has at least one of the six fields
  populated, and so has every record of the output of \<open>parse_rows\<close>. The output of
  \<open>parse_rows\<close> is made of the records of the body rows for which \<open>_transform_row\<close>
  returns one, in document order (a row without cells has the six values absent).
\<close>

theorem transform_row_discard_rule:
  "(transform_row L tf f2 tk row = None \<longleftrightarrow>
      \<not> truthy (row_quarter row) \<and> \<not> truthy (row_date L row)
      \<and> \<not> truthy (vu_value (est (row_rev row))) \<and> \<not> truthy (vu_value (act (row_rev row)))
      \<and> \<not> truthy (vu_value (est (row_eps row))) \<and> \<not> truthy (vu_value (act (row_eps row))))
   \<and> (transform_row L tf f2 tk row = Some r \<longrightarrow>
        h_quarter r \<noteq> [] \<or> h_date r \<noteq> [] \<or> h_rev_est r \<noteq> [] \<or> h_rev_act r \<noteq> []
        \<or> h_eps_est r \<noteq> [] \<or> h_eps_act r \<noteq> [])
   \<and> (\<forall>p \<in> set (parse_rows L tf f2 tk soup).
        h_quarter p \<noteq> [] \<or> h_date p \<noteq> [] \<or> h_rev_est p \<noteq> [] \<or> h_rev_act p \<noteq> []
        \<or> h_eps_est p \<noteq> [] \<or> h_eps_act p \<noteq> [])
   \<and> (find_earnings_table soup = Some t \<and> parse_headers t \<noteq> [] \<longrightarrow>
        parse_rows L tf f2 tk soup =
          List.map_filter
            (\<lambda>cells. transform_row L tf f2 tk (row_to_map (parse_headers t) cells))
            (tl (table_rows t)))"
proof -
  have pop: "h_quarter p \<noteq> [] \<or> h_date p \<noteq> [] \<or> h_rev_est p \<noteq> [] \<or> h_rev_act p \<noteq> []
        \<or> h_eps_est p \<noteq> [] \<or> h_eps_act p \<noteq> []"
    if "transform_row L tf f2 tk rw = Some p" for rw p
  proof -
    from that have "transform_row L tf f2 tk rw \<noteq> None" by simp
    then have "truthy (row_quarter rw) \<or> truthy (row_date L rw)
      \<or> truthy (vu_value (est (row_rev rw))) \<or> truthy (vu_value (act (row_rev rw)))
      \<or> truthy (vu_value (est (row_eps rw))) \<or> truthy (vu_value (act (row_eps rw)))"
      unfolding transform_row_none_iff by blast
    with transform_row_some [OF that] show ?thesis
      by (simp add: truthy_or_empty)
  qed
  have rows: "h_quarter p \<noteq> [] \<or> h_date p \<noteq> [] \<or> h_rev_est p \<noteq> [] \<or> h_rev_act p \<noteq> []
        \<or> h_eps_est p \<noteq> [] \<or> h_eps_act p \<noteq> []"
    if "p \<in> set (parse_rows L tf f2 tk soup)" for p
    using parse_rows_populated [OF that] pop by blast
  show ?thesis
    using transform_row_none_iff [of L tf f2 tk row] pop [of row r] rows
          parse_rows_map_filter [of soup t L tf f2 tk]
    by blast
qed

theorem transform_row_discard_rule_witness:
  "transform_row glibc plain_float fixed2 ''AAPL'' placeholder_row = None
   \<and> parse_rows glibc plain_float fixed2 ''AAPL'' [example_table] = example_rows
   \<and> length example_rows = 3
   \<and> length (tl (table_rows example_table)) = 5
   \<and> List.map_filter
         (\<lambda>cells. transform_row glibc plain_float fixed2 ''AAPL''
                    (row_to_map (parse_headers example_table) cells))
         (tl (table_rows example_table)) = example_rows"
proof -
  have six: "\<not> truthy (row_quarter placeholder_row) \<and> \<not> truthy (row_date glibc placeholder_row)
      \<and> \<not> truthy (vu_value (est (row_rev placeholder_row)))
      \<and> \<not> truthy (vu_value (act (row_rev placeholder_row)))
      \<and> \<not> truthy (vu_value (est (row_eps placeholder_row)))
      \<and> \<not> truthy (vu_value (act (row_eps placeholder_row)))"
    by code_simp
  have n: "length example_rows = 3" "length (tl (table_rows example_table)) = 5"
    by (simp_all add: example_rows_def example_table_def)
  have t: "find_earnings_table [example_table] = Some example_table"
    by code_simp
  have h: "parse_headers example_table \<noteq> []"
    by code_simp
  show ?thesis
    using transform_row_discard_rule [of glibc plain_float fixed2 "''AAPL''" placeholder_row
            "example_rows ! 0" "[example_table]" example_table]
          six n t h example_parse_rows
    by simp
qed



section \<open>Properties of the fetch orchestrator\<close>

lemma dict_fromkeys_fold:
  "set (fold (\<lambda>v d. if v \<in> set d then d else d @ [v]) vs acc) = set vs \<union> set acc"
  by (induction vs arbitrary: acc) auto

lemma dict_fromkeys_set: "set (dict_fromkeys vs) = set vs"
  by (simp add: dict_fromkeys_def dict_fromkeys_fold)

lemma friendly_path_inj:
  "friendly_path cd tk v = friendly_path cd tk v' \<longleftrightarrow> v = v'"
  by (simp add: friendly_path_def)

lemma variants_distinct:
  "VARIANT_OVERVIEW \<noteq> VARIANT_ANALYST" "VARIANT_OVERVIEW \<noteq> VARIANT_EARNINGS"
  "VARIANT_ANALYST \<noteq> VARIANT_EARNINGS" "VARIANT_ANALYST \<noteq> VARIANT_OVERVIEW"
  "VARIANT_EARNINGS \<noteq> VARIANT_OVERVIEW" "VARIANT_EARNINGS \<noteq> VARIANT_ANALYST"
  "VARIANT_OVERVIEW \<noteq> VARIANT_FULL" "VARIANT_FULL \<noteq> VARIANT_OVERVIEW"
  by (simp_all add: VARIANT_OVERVIEW_def VARIANT_ANALYST_def VARIANT_EARNINGS_def VARIANT_FULL_def)

lemma valid_order:
  assumes "set variants \<subseteq> set ALLOWED" "variants \<noteq> []"
  shows "\<not> (dict_fromkeys variants = [] \<or> list_ex (\<lambda>v. v \<notin> set ALLOWED) (dict_fromkeys variants))"
proof -
  from assms(2) have "set (dict_fromkeys variants) \<noteq> {}" by (simp add: dict_fromkeys_set)
  then have "dict_fromkeys variants \<noteq> []" by auto
  moreover have "\<not> list_ex (\<lambda>v. v \<notin> set ALLOWED) (dict_fromkeys variants)"
    using assms(1) by (auto simp: list_ex_iff dict_fromkeys_set)
  ultimately show ?thesis by simp
qed

lemma and_then_visited:
  assumes "\<exists>ys. visited (snd m) = vs @ ys"
    and "\<And>x w1. \<exists>zs. visited (snd (f x w1)) = visited w1 @ zs"
  shows "\<exists>ys. visited (snd (and_then m f)) = vs @ ys"
proof (cases m)
  case (Pair r w1)
  show ?thesis
  proof (cases r)
    case (Inl e)
    with Pair assms(1) show ?thesis by (simp add: and_then_def)
  next
    case (Inr x)
    from assms(1) Pair obtain ys where ys: "visited w1 = vs @ ys" by auto
    from assms(2) [of x w1] obtain zs where "visited (snd (f x w1)) = visited w1 @ zs" by auto
    with ys Pair Inr show ?thesis by (simp add: and_then_def)
  qed
qed

lemma save_page_visited: "visited (snd (save_page cd tk v res h w)) = visited w"
  by (simp add: save_page_def write_file_def)

lemma overview_step_visited:
  "\<exists>zs. visited (snd (overview_step B cd url tk res w)) = visited w @ zs"
  by (simp add: overview_step_def and_then_def capture_def save_page_visited split: option.splits)

lemma analyst_step_visited:
  "\<exists>zs. visited (snd (analyst_step B cd url tk res w)) = visited w @ zs"
  by (simp add: analyst_step_def and_then_def capture_def navigate_def save_page_visited
      split: option.splits)

lemma earnings_step_visited:
  "\<exists>zs. visited (snd (earnings_step B cd url tk res w)) = visited w @ zs"
  by (simp add: earnings_step_def and_then_def capture_def navigate_def save_page_visited
      split: option.splits)

lemma session_visited:
  "\<exists>ys. visited (snd (session B cd url ord tk w)) = visited w @ url # ys"
proof -
  have n: "\<exists>ys. visited (snd (navigate B url w)) = (visited w @ [url]) @ ys"
    by (simp add: navigate_def)
  have "\<exists>ys. visited (snd (session B cd url ord tk w)) = (visited w @ [url]) @ ys"
    unfolding session_def Let_def
    by (intro and_then_visited n)
       (auto intro!: and_then_visited overview_step_visited analyst_step_visited
          earnings_step_visited)
  then show ?thesis by simp
qed


lemma and_then_launched:
  assumes "launched (snd m) = c" and "\<And>x w1. launched w1 = c \<Longrightarrow> launched (snd (f x w1)) = c"
  shows "launched (snd (and_then m f)) = c"
  using assms by (cases m; cases "fst m") (auto simp: and_then_def)

lemma and_then_files:
  assumes "files (snd m) p = c" and "\<And>x w1. files w1 p = c \<Longrightarrow> files (snd (f x w1)) p = c"
  shows "files (snd (and_then m f)) p = c"
  using assms by (cases m; cases "fst m") (auto simp: and_then_def)

lemma save_page_launched: "launched (snd (save_page cd tk v res h w)) = launched w"
  by (simp add: save_page_def write_file_def)

lemma overview_step_launched: "launched (snd (overview_step B cd url tk res w)) = launched w"
  by (simp add: overview_step_def and_then_def capture_def save_page_launched split: option.splits)

lemma analyst_step_launched: "launched (snd (analyst_step B cd url tk res w)) = launched w"
  by (simp add: analyst_step_def and_then_def capture_def navigate_def save_page_launched
      split: option.splits)

lemma earnings_step_launched: "launched (snd (earnings_step B cd url tk res w)) = launched w"
  by (simp add: earnings_step_def and_then_def capture_def navigate_def save_page_launched
      split: option.splits)

lemma session_launched: "launched (snd (session B cd url ord tk w)) = launched w"
  unfolding session_def Let_def
  by (auto intro!: and_then_launched
      simp: navigate_def overview_step_launched analyst_step_launched earnings_step_launched)

lemma save_page_files:
  "files (snd (save_page cd tk v res h w)) p =
     (if \<not> no_results h \<and> p = friendly_path cd tk v then Some h else files w p)"
  by (simp add: save_page_def write_file_def)

lemma overview_step_files:
  assumes "p \<noteq> friendly_path cd tk VARIANT_OVERVIEW
           \<or> (\<exists>h. page_source B url = Some h \<and> no_results h)"
  shows "files (snd (overview_step B cd url tk res w)) p = files w p"
  using assms
  by (auto simp: overview_step_def and_then_def capture_def save_page_files split: option.splits)

lemma analyst_step_files:
  assumes "p \<noteq> friendly_path cd tk VARIANT_ANALYST
           \<or> (\<exists>h. page_source B (analysts_url url) = Some h \<and> no_results h)"
  shows "files (snd (analyst_step B cd url tk res w)) p = files w p"
  using assms
  by (auto simp: analyst_step_def and_then_def capture_def navigate_def save_page_files
      split: option.splits)

lemma earnings_step_files:
  assumes "p \<noteq> friendly_path cd tk VARIANT_EARNINGS
           \<or> (\<exists>h. page_source B (earnings_url url) = Some h \<and> no_results h)"
  shows "files (snd (earnings_step B cd url tk res w)) p = files w p"
  using assms
  by (auto simp: earnings_step_def and_then_def capture_def navigate_def save_page_files
      split: option.splits)

lemma session_files:
  assumes "p \<noteq> friendly_path cd tk VARIANT_OVERVIEW
           \<or> (\<exists>h. page_source B url = Some h \<and> no_results h)"
    and "p \<noteq> friendly_path cd tk VARIANT_ANALYST
           \<or> (\<exists>h. page_source B (analysts_url url) = Some h \<and> no_results h)"
    and "p \<noteq> friendly_path cd tk VARIANT_EARNINGS
           \<or> (\<exists>h. page_source B (earnings_url url) = Some h \<and> no_results h)"
  shows "files (snd (session B cd url ord tk w)) p = files w p"
  unfolding session_def Let_def
  by (auto intro!: and_then_files
      simp: navigate_def overview_step_files [OF assms(1)] analyst_step_files [OF assms(2)]
        earnings_step_files [OF assms(3)])

lemma fetch_variants_files:
  assumes "p \<noteq> friendly_path cd (the np) VARIANT_OVERVIEW
           \<or> (\<exists>h. page_source B url = Some h \<and> no_results h)"
    and "p \<noteq> friendly_path cd (the np) VARIANT_ANALYST
           \<or> (\<exists>h. page_source B (analysts_url url) = Some h \<and> no_results h)"
    and "p \<noteq> friendly_path cd (the np) VARIANT_EARNINGS
           \<or> (\<exists>h. page_source B (earnings_url url) = Some h \<and> no_results h)"
  shows "files (snd (fetch_variants B cd url variants np w)) p = files w p"
  by (simp add: fetch_variants_def Let_def create_driver_def case_prod_beta
      session_files [OF assms])

lemma fetch_variants_session:
  assumes "set variants \<subseteq> set ALLOWED" "variants \<noteq> []" "truthy np"
    and "\<not> (if VARIANT_FULL \<in> set variants
             then exists_file w cd (the np) VARIANT_OVERVIEW
                  \<and> exists_file w cd (the np) VARIANT_ANALYST
                  \<and> exists_file w cd (the np) VARIANT_EARNINGS
             else exists_file w cd (the np) VARIANT_OVERVIEW
                  \<and> exists_file w cd (the np) VARIANT_ANALYST)"
  shows "fetch_variants B cd url variants np w =
     (if start B then
        (fst (session B cd url (dict_fromkeys variants) (the np) (w\<lparr>launched := launched w + 1\<rparr>)),
         (snd (session B cd url (dict_fromkeys variants) (the np) (w\<lparr>launched := launched w + 1\<rparr>)))
           \<lparr>quitted := quitted (snd (session B cd url (dict_fromkeys variants) (the np)
                          (w\<lparr>launched := launched w + 1\<rparr>))) + 1\<rparr>)
      else (Inl WebDriverException, w\<lparr>launched := launched w + 1\<rparr>))"
  using valid_order [OF assms(1,2)] assms(3,4)
  by (auto simp: fetch_variants_def Let_def create_driver_def case_prod_beta dict_fromkeys_set)


lemma overview_step_coop:
  "page_source B url = Some h \<Longrightarrow>
   overview_step B cd url tk res w =
     (if exists_file w cd tk VARIANT_OVERVIEW then (Inr res, w)
      else if no_results h then (Inr res, w)
      else (Inr (AList.update VARIANT_OVERVIEW (friendly_path cd tk VARIANT_OVERVIEW) res),
            w\<lparr>files := (files w)(friendly_path cd tk VARIANT_OVERVIEW := Some h)\<rparr>))"
  by (simp add: overview_step_def and_then_def capture_def save_page_def write_file_def)

lemma analyst_step_coop:
  "load B (analysts_url url) \<Longrightarrow> page_source B (analysts_url url) = Some h \<Longrightarrow>
   analyst_step B cd url tk res w =
     (if exists_file w cd tk VARIANT_ANALYST then (Inr res, w)
      else if no_results h then (Inr res, w\<lparr>visited := visited w @ [analysts_url url]\<rparr>)
      else (Inr (AList.update VARIANT_ANALYST (friendly_path cd tk VARIANT_ANALYST) res),
            w\<lparr>visited := visited w @ [analysts_url url],
              files := (files w)(friendly_path cd tk VARIANT_ANALYST := Some h)\<rparr>))"
  by (simp add: analyst_step_def and_then_def capture_def navigate_def save_page_def
      write_file_def)

lemma earnings_step_coop:
  "load B (earnings_url url) \<Longrightarrow> page_source B (earnings_url url) = Some h \<Longrightarrow>
   earnings_step B cd url tk res w =
     (if exists_file w cd tk VARIANT_EARNINGS then (Inr res, w)
      else if no_results h then (Inr res, w\<lparr>visited := visited w @ [earnings_url url]\<rparr>)
      else (Inr (AList.update VARIANT_EARNINGS (friendly_path cd tk VARIANT_EARNINGS) res),
            w\<lparr>visited := visited w @ [earnings_url url],
              files := (files w)(friendly_path cd tk VARIANT_EARNINGS := Some h)\<rparr>))"
  by (simp add: earnings_step_def and_then_def capture_def navigate_def save_page_def
      write_file_def)

lemma session_coop:
  assumes "VARIANT_OVERVIEW \<in> set ord \<or> VARIANT_FULL \<in> set ord"
    and "\<And>u. load B u" "\<And>u. page_source B u = Some (pg u)"
  shows "\<exists>R. fst (session B cd url ord tk w) = Inr R"
    and "visited (snd (session B cd url ord tk w)) =
           visited w @ [url]
           @ (if exists_file w cd tk VARIANT_ANALYST then [] else [analysts_url url])
           @ (if VARIANT_FULL \<in> set ord \<and> \<not> exists_file w cd tk VARIANT_EARNINGS
              then [earnings_url url] else [])"
    and "quitted (snd (session B cd url ord tk w)) = quitted w"
    and "files (snd (session B cd url ord tk w)) (friendly_path cd tk VARIANT_OVERVIEW) =
           (if \<not> exists_file w cd tk VARIANT_OVERVIEW \<and> \<not> no_results (pg url)
            then Some (pg url) else files w (friendly_path cd tk VARIANT_OVERVIEW))"
    and "files (snd (session B cd url ord tk w)) (friendly_path cd tk VARIANT_ANALYST) =
           (if \<not> exists_file w cd tk VARIANT_ANALYST \<and> \<not> no_results (pg (analysts_url url))
            then Some (pg (analysts_url url)) else files w (friendly_path cd tk VARIANT_ANALYST))"
    and "files (snd (session B cd url ord tk w)) (friendly_path cd tk VARIANT_EARNINGS) =
           (if VARIANT_FULL \<in> set ord \<and> \<not> exists_file w cd tk VARIANT_EARNINGS
               \<and> \<not> no_results (pg (earnings_url url))
            then Some (pg (earnings_url url)) else files w (friendly_path cd tk VARIANT_EARNINGS))"
proof -
  define w1 where "w1 = w\<lparr>visited := visited w @ [url]\<rparr>"
  define w2 where
    "w2 = (if exists_file w cd tk VARIANT_OVERVIEW \<or> no_results (pg url) then w1
           else w1\<lparr>files := (files w1)(friendly_path cd tk VARIANT_OVERVIEW := Some (pg url))\<rparr>)"
  define r2 where
    "r2 = (if exists_file w cd tk VARIANT_OVERVIEW \<or> no_results (pg url) then []
           else AList.update VARIANT_OVERVIEW (friendly_path cd tk VARIANT_OVERVIEW) [])"
  have eo: "exists_file w1 cd tk VARIANT_OVERVIEW = exists_file w cd tk VARIANT_OVERVIEW"
    by (simp add: w1_def exists_file_def)
  have o: "overview_step B cd url tk [] w1 = (Inr r2, w2)"
    by (simp add: overview_step_coop [OF assms(3)] eo w2_def r2_def)
  have ea: "exists_file w2 cd tk VARIANT_ANALYST = exists_file w cd tk VARIANT_ANALYST"
    by (simp add: w2_def w1_def exists_file_def friendly_path_inj variants_distinct)
  define w3 where
    "w3 = (if exists_file w cd tk VARIANT_ANALYST then w2
           else if no_results (pg (analysts_url url))
           then w2\<lparr>visited := visited w2 @ [analysts_url url]\<rparr>
           else w2\<lparr>visited := visited w2 @ [analysts_url url],
                  files := (files w2)(friendly_path cd tk VARIANT_ANALYST
                             := Some (pg (analysts_url url)))\<rparr>)"
  define r3 where
    "r3 = (if exists_file w cd tk VARIANT_ANALYST \<or> no_results (pg (analysts_url url)) then r2
           else AList.update VARIANT_ANALYST (friendly_path cd tk VARIANT_ANALYST) r2)"
  have a: "analyst_step B cd url tk r2 w2 = (Inr r3, w3)"
    by (simp add: analyst_step_coop [OF assms(2) assms(3)] ea w3_def r3_def)
  have ee: "exists_file w3 cd tk VARIANT_EARNINGS = exists_file w cd tk VARIANT_EARNINGS"
    by (simp add: w3_def w2_def w1_def exists_file_def friendly_path_inj variants_distinct)
  define w4 where
    "w4 = (if VARIANT_FULL \<in> set ord \<and> \<not> exists_file w cd tk VARIANT_EARNINGS
           then (if no_results (pg (earnings_url url))
                 then w3\<lparr>visited := visited w3 @ [earnings_url url]\<rparr>
                 else w3\<lparr>visited := visited w3 @ [earnings_url url],
                        files := (files w3)(friendly_path cd tk VARIANT_EARNINGS
                                   := Some (pg (earnings_url url)))\<rparr>)
           else w3)"
  define r4 where
    "r4 = (if VARIANT_FULL \<in> set ord \<and> \<not> exists_file w cd tk VARIANT_EARNINGS
              \<and> \<not> no_results (pg (earnings_url url))
           then AList.update VARIANT_EARNINGS (friendly_path cd tk VARIANT_EARNINGS) r3
           else r3)"
  have e: "(if VARIANT_FULL \<in> set ord then earnings_step B cd url tk r3 w3
            else (Inr r3, w3)) = (Inr r4, w4)"
    by (simp add: earnings_step_coop [OF assms(2) assms(3)] ee w4_def r4_def)
  note w4 = w4_def and w3 = w3_def and w2 = w2_def
  have s: "session B cd url ord tk w =
             (Inr (if VARIANT_FULL \<in> set ord then
                 setdefault VARIANT_EARNINGS (friendly_path cd tk VARIANT_EARNINGS)
                   (setdefault VARIANT_ANALYST (friendly_path cd tk VARIANT_ANALYST)
                     (setdefault VARIANT_OVERVIEW (friendly_path cd tk VARIANT_OVERVIEW) r4))
               else r4), w4)"
    using assms(1) o a e
    by (simp add: session_def Let_def and_then_def navigate_def assms(2) w1_def [symmetric])
  show "\<exists>R. fst (session B cd url ord tk w) = Inr R"
    by (simp add: s)
  show "visited (snd (session B cd url ord tk w)) =
           visited w @ [url]
           @ (if exists_file w cd tk VARIANT_ANALYST then [] else [analysts_url url])
           @ (if VARIANT_FULL \<in> set ord \<and> \<not> exists_file w cd tk VARIANT_EARNINGS
              then [earnings_url url] else [])"
    by (simp add: s w4 w3 w2 w1_def)
  show "quitted (snd (session B cd url ord tk w)) = quitted w"
    by (simp add: s w4 w3 w2 w1_def)
  show "files (snd (session B cd url ord tk w)) (friendly_path cd tk VARIANT_OVERVIEW) =
           (if \<not> exists_file w cd tk VARIANT_OVERVIEW \<and> \<not> no_results (pg url)
            then Some (pg url) else files w (friendly_path cd tk VARIANT_OVERVIEW))"
    by (simp add: s w4 w3 w2 w1_def friendly_path_inj variants_distinct)
  show "files (snd (session B cd url ord tk w)) (friendly_path cd tk VARIANT_ANALYST) =
           (if \<not> exists_file w cd tk VARIANT_ANALYST \<and> \<not> no_results (pg (analysts_url url))
            then Some (pg (analysts_url url)) else files w (friendly_path cd tk VARIANT_ANALYST))"
    by (simp add: s w4 w3 w2 w1_def friendly_path_inj variants_distinct)
  show "files (snd (session B cd url ord tk w)) (friendly_path cd tk VARIANT_EARNINGS) =
           (if VARIANT_FULL \<in> set ord \<and> \<not> exists_file w cd tk VARIANT_EARNINGS
               \<and> \<not> no_results (pg (earnings_url url))
            then Some (pg (earnings_url url)) else files w (friendly_path cd tk VARIANT_EARNINGS))"
    by (simp add: s w4 w3 w2 w1_def friendly_path_inj variants_distinct)
qed


lemma example_urls:
  "analysts_url ''https://earningshub.com/quote/AAPL/'' = ''https://earningshub.com/quote/AAPL/analysts''"
  "earnings_url ''https://earningshub.com/quote/AAPL/'' = ''https://earningshub.com/quote/AAPL/earnings''"
  by code_simp+

lemma example_paths:
  "friendly_path ''cache'' '' aapl'' VARIANT_OVERVIEW = ''cache/AAPL_overview.html''"
  "friendly_path ''cache'' '' aapl'' VARIANT_ANALYST = ''cache/AAPL_analyst.html''"
  "friendly_path ''cache'' '' aapl'' VARIANT_EARNINGS = ''cache/AAPL_earnings.html''"
  by code_simp+

text \<open>
  C6. For a call with admissible variants among which \<open>full\<close> and with a ticker: when
  the overview, the analyst and the earnings documents of the ticker all exist in the
  cache directory, \<open>fetch_variants\<close> returns the three cached paths and leaves the
  world as it was (no session is asked for, no address is loaded, no file is written);
  when one of the three is missing the short-circuit does not apply: a session is
  asked for and, when the browser starts, the base address is loaded.
\<close>

theorem fetch_variants_cache_short_circuit:
  assumes "set variants \<subseteq> set ALLOWED" and "VARIANT_FULL \<in> set variants" and "truthy np"
  shows "(exists_file w cd (the np) VARIANT_OVERVIEW \<and> exists_file w cd (the np) VARIANT_ANALYST
          \<and> exists_file w cd (the np) VARIANT_EARNINGS \<longrightarrow>
            fetch_variants B cd url variants np w =
              (Inr [(VARIANT_OVERVIEW, friendly_path cd (the np) VARIANT_OVERVIEW),
                    (VARIANT_ANALYST, friendly_path cd (the np) VARIANT_ANALYST),
                    (VARIANT_EARNINGS, friendly_path cd (the np) VARIANT_EARNINGS)], w))
       \<and> (\<not> (exists_file w cd (the np) VARIANT_OVERVIEW \<and> exists_file w cd (the np) VARIANT_ANALYST
             \<and> exists_file w cd (the np) VARIANT_EARNINGS) \<longrightarrow>
            launched (snd (fetch_variants B cd url variants np w)) = launched w + 1
            \<and> (start B \<longrightarrow>
                 (\<exists>rest. visited (snd (fetch_variants B cd url variants np w))
                         = visited w @ url # rest)))"
proof -
  from assms(2) have ne: "variants \<noteq> []" by auto
  have hit: "fetch_variants B cd url variants np w =
              (Inr [(VARIANT_OVERVIEW, friendly_path cd (the np) VARIANT_OVERVIEW),
                    (VARIANT_ANALYST, friendly_path cd (the np) VARIANT_ANALYST),
                    (VARIANT_EARNINGS, friendly_path cd (the np) VARIANT_EARNINGS)], w)"
    if "exists_file w cd (the np) VARIANT_OVERVIEW" "exists_file w cd (the np) VARIANT_ANALYST"
       "exists_file w cd (the np) VARIANT_EARNINGS"
    using valid_order [OF assms(1) ne] assms(2,3) that
    by (simp add: fetch_variants_def Let_def dict_fromkeys_set)
  have miss: "launched (snd (fetch_variants B cd url variants np w)) = launched w + 1
            \<and> (start B \<longrightarrow>
                 (\<exists>rest. visited (snd (fetch_variants B cd url variants np w))
                         = visited w @ url # rest))"
    if "\<not> (exists_file w cd (the np) VARIANT_OVERVIEW \<and> exists_file w cd (the np) VARIANT_ANALYST
             \<and> exists_file w cd (the np) VARIANT_EARNINGS)"
  proof -
    have f: "fetch_variants B cd url variants np w =
     (if start B then
        (fst (session B cd url (dict_fromkeys variants) (the np) (w\<lparr>launched := launched w + 1\<rparr>)),
         (snd (session B cd url (dict_fromkeys variants) (the np) (w\<lparr>launched := launched w + 1\<rparr>)))
           \<lparr>quitted := quitted (snd (session B cd url (dict_fromkeys variants) (the np)
                          (w\<lparr>launched := launched w + 1\<rparr>))) + 1\<rparr>)
      else (Inl WebDriverException, w\<lparr>launched := launched w + 1\<rparr>))"
      using that assms(2) by (intro fetch_variants_session assms(1) ne assms(3)) simp
    from session_visited [of B cd url "dict_fromkeys variants" "the np"
           "w\<lparr>launched := launched w + 1\<rparr>"]
    show ?thesis
      by (auto simp: f session_launched)
  qed
  from hit miss show ?thesis by blast
qed

theorem fetch_variants_cache_short_circuit_witness:
  "fetch_variants example_site ''cache'' ''https://earningshub.com/quote/AAPL/''
     [''full'', ''overview'', ''full''] (Some '' aapl'') full_cache =
     (Inr [(''overview'', ''cache/AAPL_overview.html''),
           (''analyst'', ''cache/AAPL_analyst.html''),
           (''earnings'', ''cache/AAPL_earnings.html'')], full_cache)
   \<and> launched full_cache = 0
   \<and> launched (snd (fetch_variants example_site ''cache'' ''https://earningshub.com/quote/AAPL/''
        [''full'', ''overview'', ''full''] (Some '' aapl'') partial_cache)) = 1
   \<and> visited (snd (fetch_variants example_site ''cache'' ''https://earningshub.com/quote/AAPL/''
        [''full'', ''overview'', ''full''] (Some '' aapl'') partial_cache))
       = [''https://earningshub.com/quote/AAPL/'', ''https://earningshub.com/quote/AAPL/earnings'']"
proof -
  have v: "set [''full'', ''overview'', ''full''] \<subseteq> set ALLOWED"
    "VARIANT_FULL \<in> set [''full'', ''overview'', ''full'']" "truthy (Some '' aapl'')"
    by (simp_all add: ALLOWED_def VARIANT_OVERVIEW_def VARIANT_FULL_def)
  have c: "exists_file full_cache ''cache'' '' aapl'' VARIANT_OVERVIEW"
    "exists_file full_cache ''cache'' '' aapl'' VARIANT_ANALYST"
    "exists_file full_cache ''cache'' '' aapl'' VARIANT_EARNINGS"
    "exists_file partial_cache ''cache'' '' aapl'' VARIANT_OVERVIEW"
    "exists_file partial_cache ''cache'' '' aapl'' VARIANT_ANALYST"
    "\<not> exists_file partial_cache ''cache'' '' aapl'' VARIANT_EARNINGS"
    by (simp_all add: exists_file_def example_paths full_cache_def partial_cache_def
        empty_world_def)
  have l: "launched full_cache = 0" "launched partial_cache = 0"
    by (simp_all add: full_cache_def partial_cache_def empty_world_def)
  have t: "visited (snd (fetch_variants example_site ''cache'' ''https://earningshub.com/quote/AAPL/''
        [''full'', ''overview'', ''full''] (Some '' aapl'') partial_cache))
       = [''https://earningshub.com/quote/AAPL/'', ''https://earningshub.com/quote/AAPL/earnings'']"
    by code_simp
  show ?thesis
    using fetch_variants_cache_short_circuit [OF v, of full_cache "''cache''" example_site
            "''https://earningshub.com/quote/AAPL/''"]
          fetch_variants_cache_short_circuit [OF v, of partial_cache "''cache''" example_site
            "''https://earningshub.com/quote/AAPL/''"]
          c l t
    by (simp add: VARIANT_OVERVIEW_def VARIANT_ANALYST_def VARIANT_EARNINGS_def
        example_paths [unfolded VARIANT_OVERVIEW_def VARIANT_ANALYST_def VARIANT_EARNINGS_def])
qed


lemma valid_want_overview:
  assumes "set variants \<subseteq> set ALLOWED" "variants \<noteq> []"
  shows "VARIANT_OVERVIEW \<in> set (dict_fromkeys variants) \<or> VARIANT_FULL \<in> set (dict_fromkeys variants)"
proof -
  from assms(2) obtain v where "v \<in> set variants" by (cases variants) auto
  with assms(1) show ?thesis by (auto simp: dict_fromkeys_set ALLOWED_def)
qed

text \<open>
  C9. A captured page that reports that the symbol was not found is never written: for
  each of the three steps, when the page read at the address of the step is such a page,
  the cache file of that variant is after the call what it was before, whatever the
  browser does elsewhere. The negative result is not an error and does not stop the
  run: with admissible arguments and a browser that starts, loads every address and
  returns a page for each, a call that is not served from the cache returns a result
  dictionary, loads the base address and then the address of each later step whose
  document is missing, whatever the pages say, closes the session, and writes exactly
  the missing documents whose page does not report that the symbol was not found.
\<close>

theorem no_results_page_is_not_cached:
  "(page_source B url = Some h \<and> no_results h \<longrightarrow>
      files (snd (fetch_variants B cd url variants np w)) (friendly_path cd (the np) VARIANT_OVERVIEW)
        = files w (friendly_path cd (the np) VARIANT_OVERVIEW))
   \<and> (page_source B (analysts_url url) = Some h \<and> no_results h \<longrightarrow>
      files (snd (fetch_variants B cd url variants np w)) (friendly_path cd (the np) VARIANT_ANALYST)
        = files w (friendly_path cd (the np) VARIANT_ANALYST))
   \<and> (page_source B (earnings_url url) = Some h \<and> no_results h \<longrightarrow>
      files (snd (fetch_variants B cd url variants np w)) (friendly_path cd (the np) VARIANT_EARNINGS)
        = files w (friendly_path cd (the np) VARIANT_EARNINGS))
   \<and> (set variants \<subseteq> set ALLOWED \<and> variants \<noteq> [] \<and> truthy np
      \<and> start B \<and> (\<forall>u. load B u) \<and> (\<forall>u. page_source B u = Some (pg u))
      \<and> \<not> (if VARIANT_FULL \<in> set variants
             then exists_file w cd (the np) VARIANT_OVERVIEW
                  \<and> exists_file w cd (the np) VARIANT_ANALYST
                  \<and> exists_file w cd (the np) VARIANT_EARNINGS
             else exists_file w cd (the np) VARIANT_OVERVIEW
                  \<and> exists_file w cd (the np) VARIANT_ANALYST) \<longrightarrow>
        (\<exists>R. fst (fetch_variants B cd url variants np w) = Inr R)
        \<and> visited (snd (fetch_variants B cd url variants np w)) =
             visited w @ [url]
             @ (if exists_file w cd (the np) VARIANT_ANALYST then [] else [analysts_url url])
             @ (if VARIANT_FULL \<in> set variants \<and> \<not> exists_file w cd (the np) VARIANT_EARNINGS
                then [earnings_url url] else [])
        \<and> quitted (snd (fetch_variants B cd url variants np w)) = quitted w + 1
        \<and> files (snd (fetch_variants B cd url variants np w))
              (friendly_path cd (the np) VARIANT_OVERVIEW) =
            (if \<not> exists_file w cd (the np) VARIANT_OVERVIEW \<and> \<not> no_results (pg url)
             then Some (pg url) else files w (friendly_path cd (the np) VARIANT_OVERVIEW))
        \<and> files (snd (fetch_variants B cd url variants np w))
              (friendly_path cd (the np) VARIANT_ANALYST) =
            (if \<not> exists_file w cd (the np) VARIANT_ANALYST
                \<and> \<not> no_results (pg (analysts_url url))
             then Some (pg (analysts_url url))
             else files w (friendly_path cd (the np) VARIANT_ANALYST))
        \<and> files (snd (fetch_variants B cd url variants np w))
              (friendly_path cd (the np) VARIANT_EARNINGS) =
            (if VARIANT_FULL \<in> set variants \<and> \<not> exists_file w cd (the np) VARIANT_EARNINGS
                \<and> \<not> no_results (pg (earnings_url url))
             then Some (pg (earnings_url url))
             else files w (friendly_path cd (the np) VARIANT_EARNINGS)))"
proof -
  have o: "files (snd (fetch_variants B cd url variants np w))
             (friendly_path cd (the np) VARIANT_OVERVIEW)
           = files w (friendly_path cd (the np) VARIANT_OVERVIEW)"
    if "page_source B url = Some h" "no_results h"
    using that by (intro fetch_variants_files) (auto simp: friendly_path_inj variants_distinct)
  have a: "files (snd (fetch_variants B cd url variants np w))
             (friendly_path cd (the np) VARIANT_ANALYST)
           = files w (friendly_path cd (the np) VARIANT_ANALYST)"
    if "page_source B (analysts_url url) = Some h" "no_results h"
    using that by (intro fetch_variants_files) (auto simp: friendly_path_inj variants_distinct)
  have e: "files (snd (fetch_variants B cd url variants np w))
             (friendly_path cd (the np) VARIANT_EARNINGS)
           = files w (friendly_path cd (the np) VARIANT_EARNINGS)"
    if "page_source B (earnings_url url) = Some h" "no_results h"
    using that by (intro fetch_variants_files) (auto simp: friendly_path_inj variants_distinct)
  have run: "(\<exists>R. fst (fetch_variants B cd url variants np w) = Inr R)
        \<and> visited (snd (fetch_variants B cd url variants np w)) =
             visited w @ [url]
             @ (if exists_file w cd (the np) VARIANT_ANALYST then [] else [analysts_url url])
             @ (if VARIANT_FULL \<in> set variants \<and> \<not> exists_file w cd (the np) VARIANT_EARNINGS
                then [earnings_url url] else [])
        \<and> quitted (snd (fetch_variants B cd url variants np w)) = quitted w + 1
        \<and> files (snd (fetch_variants B cd url variants np w))
              (friendly_path cd (the np) VARIANT_OVERVIEW) =
            (if \<not> exists_file w cd (the np) VARIANT_OVERVIEW \<and> \<not> no_results (pg url)
             then Some (pg url) else files w (friendly_path cd (the np) VARIANT_OVERVIEW))
        \<and> files (snd (fetch_variants B cd url variants np w))
              (friendly_path cd (the np) VARIANT_ANALYST) =
            (if \<not> exists_file w cd (the np) VARIANT_ANALYST
                \<and> \<not> no_results (pg (analysts_url url))
             then Some (pg (analysts_url url))
             else files w (friendly_path cd (the np) VARIANT_ANALYST))
        \<and> files (snd (fetch_variants B cd url variants np w))
              (friendly_path cd (the np) VARIANT_EARNINGS) =
            (if VARIANT_FULL \<in> set variants \<and> \<not> exists_file w cd (the np) VARIANT_EARNINGS
                \<and> \<not> no_results (pg (earnings_url url))
             then Some (pg (earnings_url url))
             else files w (friendly_path cd (the np) VARIANT_EARNINGS))"
    if v: "set variants \<subseteq> set ALLOWED" "variants \<noteq> []" "truthy np"
      and c: "start B" "\<forall>u. load B u" "\<forall>u. page_source B u = Some (pg u)"
      and m: "\<not> (if VARIANT_FULL \<in> set variants
             then exists_file w cd (the np) VARIANT_OVERVIEW
                  \<and> exists_file w cd (the np) VARIANT_ANALYST
                  \<and> exists_file w cd (the np) VARIANT_EARNINGS
             else exists_file w cd (the np) VARIANT_OVERVIEW
                  \<and> exists_file w cd (the np) VARIANT_ANALYST)"
  proof -
    define w0 where "w0 = w\<lparr>launched := launched w + 1\<rparr>"
    have x: "exists_file w0 cd (the np) V = exists_file w cd (the np) V" for V
      by (simp add: w0_def exists_file_def)
    have w0: "visited w0 = visited w" "quitted w0 = quitted w" "files w0 = files w"
      by (simp_all add: w0_def)
    have f: "fetch_variants B cd url variants np w =
        (fst (session B cd url (dict_fromkeys variants) (the np) w0),
         (snd (session B cd url (dict_fromkeys variants) (the np) w0))
           \<lparr>quitted := quitted (snd (session B cd url (dict_fromkeys variants) (the np) w0)) + 1\<rparr>)"
      using fetch_variants_session [OF v m, of B url] c(1) by (simp add: w0_def)
    from c have l: "\<And>u. load B u" and p: "\<And>u. page_source B u = Some (pg u)" by auto
    note s = session_coop [OF valid_want_overview [OF v(1,2)] l p, of cd url "the np" w0]
    show ?thesis
      using s by (simp add: f x w0 dict_fromkeys_set)
  qed
  from o a e run show ?thesis by blast
qed

theorem no_results_page_is_not_cached_witness:
  "no_results ''<p>Symbol Not Found</p>''
   \<and> fst (fetch_variants example_site ''cache'' ''https://earningshub.com/quote/AAPL/''
            [''full''] (Some '' aapl'') empty_world) =
       Inr [(''overview'', ''cache/AAPL_overview.html''),
            (''earnings'', ''cache/AAPL_earnings.html''),
            (''analyst'', ''cache/AAPL_analyst.html'')]
   \<and> files (snd (fetch_variants example_site ''cache'' ''https://earningshub.com/quote/AAPL/''
            [''full''] (Some '' aapl'') empty_world)) ''cache/AAPL_analyst.html'' = None
   \<and> files (snd (fetch_variants example_site ''cache'' ''https://earningshub.com/quote/AAPL/''
            [''full''] (Some '' aapl'') empty_world)) ''cache/AAPL_earnings.html'' =
       Some ''<html>https://earningshub.com/quote/AAPL/earnings</html>''
   \<and> visited (snd (fetch_variants example_site ''cache'' ''https://earningshub.com/quote/AAPL/''
            [''full''] (Some '' aapl'') empty_world)) =
       [''https://earningshub.com/quote/AAPL/'', ''https://earningshub.com/quote/AAPL/analysts'',
        ''https://earningshub.com/quote/AAPL/earnings'']
   \<and> quitted (snd (fetch_variants example_site ''cache'' ''https://earningshub.com/quote/AAPL/''
            [''full''] (Some '' aapl'') empty_world)) = 1"
proof -
  have n: "no_results ''<p>Symbol Not Found</p>''"
    "\<not> no_results ''<html>https://earningshub.com/quote/AAPL/earnings</html>''"
    by code_simp+
  have v: "set [''full''] \<subseteq> set ALLOWED" "VARIANT_FULL \<in> set [''full'']"
    by (simp_all add: ALLOWED_def VARIANT_FULL_def)
  have b: "start example_site" "\<forall>u. load example_site u"
    "\<forall>u. page_source example_site u =
          Some (if u = ''https://earningshub.com/quote/AAPL/analysts''
                then ''<p>Symbol Not Found</p>'' else ''<html>'' @ u @ ''</html>'')"
    by (simp_all add: example_site_def)
  have c: "\<not> exists_file empty_world ''cache'' '' aapl'' VARIANT_OVERVIEW"
    "\<not> exists_file empty_world ''cache'' '' aapl'' VARIANT_ANALYST"
    "\<not> exists_file empty_world ''cache'' '' aapl'' VARIANT_EARNINGS"
    "visited empty_world = []" "quitted empty_world = 0"
    "files empty_world ''cache/AAPL_analyst.html'' = None"
    by (simp_all add: exists_file_def empty_world_def)
  have r: "fst (fetch_variants example_site ''cache'' ''https://earningshub.com/quote/AAPL/''
            [''full''] (Some '' aapl'') empty_world) =
       Inr [(''overview'', ''cache/AAPL_overview.html''),
            (''earnings'', ''cache/AAPL_earnings.html''),
            (''analyst'', ''cache/AAPL_analyst.html'')]"
    by code_simp
  show ?thesis
    using no_results_page_is_not_cached [of example_site "''https://earningshub.com/quote/AAPL/''"
            "''<p>Symbol Not Found</p>''" "''cache''" "[''full'']" "Some '' aapl''" empty_world
            "\<lambda>u. if u = ''https://earningshub.com/quote/AAPL/analysts''
                 then ''<p>Symbol Not Found</p>'' else ''<html>'' @ u @ ''</html>''"]
          n v b c r
    by (simp add: example_urls example_paths)
qed

section \<open>Properties of the reconciliation store\<close>


lemma spec_engine_simps:
  "connect (spec_engine ck) s = (Inr (), s\<lparr>working := committed s\<rparr>)"
  "execute (spec_engine ck) = spec_execute ck"
  "commit (spec_engine ck) s = s\<lparr>committed := working s\<rparr>"
  "close (spec_engine ck) s = s\<lparr>working := committed s\<rparr>"
  by (simp_all add: spec_engine_def)

lemma spec_upsert:
  assumes "accepted (params_of e)"
  shows "fst (upsert_earnings_row (spec_engine ck) e s) =
           (case committed s (key_of ck (params_of e)) of
              None \<Rightarrow> Inr \<lparr>row_id = next_id s, action = Inserted\<rparr>
            | Some (i, m) \<Rightarrow>
                if m = stored_of (params_of e) then Inr \<lparr>row_id = i, action = Unchanged\<rparr>
                else Inr \<lparr>row_id = i, action = Updated\<rparr>)"
    and "committed (snd (upsert_earnings_row (spec_engine ck) e s)) (key_of ck (params_of e)) =
           (case committed s (key_of ck (params_of e)) of
              None \<Rightarrow> Some (next_id s, stored_of (params_of e))
            | Some (i, m) \<Rightarrow> Some (i, stored_of (params_of e)))"
  using assms
  by (auto simp: upsert_earnings_row_def spec_engine_simps spec_execute_def split: option.splits)

lemma spec_upsert_refused:
  "\<not> accepted (params_of e) \<Longrightarrow>
   upsert_earnings_row (spec_engine ck) e s = (Inl DatabaseError, s\<lparr>working := committed s\<rparr>)"
  by (simp add: upsert_earnings_row_def spec_engine_simps spec_execute_def)


lemma decimal_value_inj:
  "two_decimals x \<Longrightarrow> two_decimals y \<Longrightarrow> decimal_value x = decimal_value y \<Longrightarrow> x = y"
  by (cases x rule: two_decimals.cases; cases y rule: two_decimals.cases) simp_all

lemma stored_changed:
  assumes "accepted (params_of e)" "accepted (params_of e')"
    and "stored_as_given e" "stored_as_given e'"
    and "(quarter e' \<noteq> quarter e \<or> rev_est e' \<noteq> rev_est e
      \<or> rev_est_unit e' \<noteq> rev_est_unit e \<or> rev_act e' \<noteq> rev_act e
      \<or> rev_act_unit e' \<noteq> rev_act_unit e \<or> rev_pct e' \<noteq> rev_pct e
      \<or> rev_status e' \<noteq> rev_status e \<or> eps_est e' \<noteq> eps_est e
      \<or> eps_act e' \<noteq> eps_act e \<or> eps_pct e' \<noteq> eps_pct e
      \<or> eps_status e' \<noteq> eps_status e)"
  shows "stored_of (params_of e') \<noteq> stored_of (params_of e)"
proof
  assume eq: "stored_of (params_of e') = stored_of (params_of e)"
  from assms(1,2) have q: "quarter e \<noteq> None" "quarter e' \<noteq> None"
    by (simp_all add: accepted_def params_of_def)
  from eq have "or_empty (quarter e') = or_empty (quarter e)"
    by (simp add: stored_of_def params_of_def)
  with q have 1: "quarter e' = quarter e"
    by (auto simp: or_empty_def)
  from eq have t: "rev_est_unit e' = rev_est_unit e" "rev_act_unit e' = rev_act_unit e"
    "rev_status e' = rev_status e" "eps_status e' = eps_status e"
    by (simp_all add: stored_of_def params_of_def)
  from eq have d: "decimal_value (rev_est e') = decimal_value (rev_est e)"
    "decimal_value (rev_act e') = decimal_value (rev_act e)"
    "decimal_value (rev_pct e') = decimal_value (rev_pct e)"
    "decimal_value (eps_est e') = decimal_value (eps_est e)"
    "decimal_value (eps_act e') = decimal_value (eps_act e)"
    "decimal_value (eps_pct e') = decimal_value (eps_pct e)"
    by (simp_all add: stored_of_def params_of_def)
  from assms(3,4) d have n: "rev_est e' = rev_est e" "rev_act e' = rev_act e"
    "rev_pct e' = rev_pct e" "eps_est e' = eps_est e" "eps_act e' = eps_act e"
    "eps_pct e' = eps_pct e"
    by (auto simp: stored_as_given_def intro: decimal_value_inj)
  from assms(5) 1 t n show False by simp
qed

lemma spec_three:
  assumes "accepted (params_of e)" "accepted (params_of e')"
    and "committed s (key_of ck (params_of e)) = None"
    and "key_of ck (params_of e') = key_of ck (params_of e)"
  shows "fst (upsert_earnings_row (spec_engine ck) e s) = Inr \<lparr>row_id = next_id s, action = Inserted\<rparr>"
    and "fst (upsert_earnings_row (spec_engine ck) e (snd (upsert_earnings_row (spec_engine ck) e s)))
           = Inr \<lparr>row_id = next_id s, action = Unchanged\<rparr>"
    and "fst (upsert_earnings_row (spec_engine ck) e'
                (snd (upsert_earnings_row (spec_engine ck) e
                   (snd (upsert_earnings_row (spec_engine ck) e s)))))
           = Inr \<lparr>row_id = next_id s,
                  action = (if stored_of (params_of e') = stored_of (params_of e)
                            then Unchanged else Updated)\<rparr>"
proof -
  let ?s1 = "snd (upsert_earnings_row (spec_engine ck) e s)"
  let ?s2 = "snd (upsert_earnings_row (spec_engine ck) e ?s1)"
  have c1: "committed ?s1 (key_of ck (params_of e)) = Some (next_id s, stored_of (params_of e))"
    by (simp add: spec_upsert(2) [OF assms(1), of ck s] assms(3))
  have c2: "committed ?s2 (key_of ck (params_of e)) = Some (next_id s, stored_of (params_of e))"
    by (simp add: spec_upsert(2) [OF assms(1), of ck ?s1] c1)
  show "fst (upsert_earnings_row (spec_engine ck) e s) = Inr \<lparr>row_id = next_id s, action = Inserted\<rparr>"
    by (simp add: spec_upsert(1) [OF assms(1), of ck s] assms(3))
  show "fst (upsert_earnings_row (spec_engine ck) e ?s1)
           = Inr \<lparr>row_id = next_id s, action = Unchanged\<rparr>"
    by (simp add: spec_upsert(1) [OF assms(1), of ck ?s1] c1)
  show "fst (upsert_earnings_row (spec_engine ck) e' ?s2)
           = Inr \<lparr>row_id = next_id s,
                  action = (if stored_of (params_of e') = stored_of (params_of e)
                            then Unchanged else Updated)\<rparr>"
    using c2 by (simp add: spec_upsert(1) [OF assms(2), of ck ?s2] assms(4))
qed

lemma spec_load_three:
  assumes "accepted (params_of e)" "accepted (params_of e')"
    and "committed s (key_of ck (params_of e)) = None"
    and "key_of ck (params_of e') = key_of ck (params_of e)"
  shows "fst (load_earnings_rows (spec_engine ck) [e, e, e'] c s) =
           Inr (if stored_of (params_of e') = stored_of (params_of e)
                then \<lparr>inserted = 1, updated = 0, unchanged = 2, attempted = 3\<rparr>
                else \<lparr>inserted = 1, updated = 1, unchanged = 1, attempted = 3\<rparr>)"
  using assms
  by (simp add: load_earnings_rows_def spec_engine_simps spec_execute_def Let_def)


lemma example_accepted:
  "accepted (params_of example_earnings)" "accepted (params_of revised_earnings)"
  "accepted (params_of subscale_earnings)" "\<not> accepted (params_of no_quarter_earnings)"
  "stored_as_given example_earnings" "stored_as_given revised_earnings"
  "\<not> stored_as_given subscale_earnings"
  by code_simp+

lemma upsert_without_quarter_raises:
  "fst (upsert_earnings_row (spec_engine ck) no_quarter_earnings s) = Inl DatabaseError"
  by (simp add: spec_upsert_refused example_accepted)

text \<open>
  C1, as the claim states it, fails on the table of \<open>db.py\<close>: the columns of the
  numbers have two decimals, so a record whose actual EPS 1.574 differs from the 1.57 of
  the stored row in the third decimal is reported \<open>unchanged\<close>, not \<open>updated\<close>.
\<close>

theorem upsert_subscale_change_is_unchanged:
  "ticker subscale_earnings = ticker example_earnings
   \<and> report_date subscale_earnings = report_date example_earnings
   \<and> eps_act subscale_earnings \<noteq> eps_act example_earnings
   \<and> fst (upsert_earnings_row (spec_engine py_upper) example_earnings empty_store)
       = Inr \<lparr>row_id = 1, action = Inserted\<rparr>
   \<and> fst (upsert_earnings_row (spec_engine py_upper) example_earnings
            (snd (upsert_earnings_row (spec_engine py_upper) example_earnings empty_store)))
       = Inr \<lparr>row_id = 1, action = Unchanged\<rparr>
   \<and> fst (upsert_earnings_row (spec_engine py_upper) subscale_earnings
            (snd (upsert_earnings_row (spec_engine py_upper) example_earnings
               (snd (upsert_earnings_row (spec_engine py_upper) example_earnings empty_store)))))
       = Inr \<lparr>row_id = 1, action = Unchanged\<rparr>"
proof -
  have k: "committed empty_store (key_of py_upper (params_of example_earnings)) = None"
    "next_id empty_store = 1"
    by (simp_all add: empty_store_def)
  have r: "ticker subscale_earnings = ticker example_earnings"
    "report_date subscale_earnings = report_date example_earnings"
    "eps_act subscale_earnings \<noteq> eps_act example_earnings"
    by (simp_all add: subscale_earnings_def example_earnings_def)
  have same: "key_of py_upper (params_of subscale_earnings) = key_of py_upper (params_of example_earnings)"
    by (simp add: key_of_def params_of_def r)
  have st: "stored_of (params_of subscale_earnings) = stored_of (params_of example_earnings)"
    by code_simp
  show ?thesis
    using spec_three [OF example_accepted(1) example_accepted(3) k(1) same] k(2) r st
    by simp
qed

text \<open>
  C1, amended. The action of an upsert is decided by the affected-row count that the
  engine reports and by nothing else: one affected row gives \<open>inserted\<close>, two give
  \<open>updated\<close>, any other count gives \<open>unchanged\<close>, in \<open>upsert_earnings_row\<close> and in
  the statistics of \<open>load_earnings_rows\<close>, for every engine. On the table of \<open>db.py\<close>,
  for records that the table accepts: a record whose (ticker, report date) is not in the
  table is \<open>inserted\<close>; the same record upserted again at once is \<open>unchanged\<close>; a
  record of the same key upserted after that is \<open>updated\<close> when the values that the
  table keeps of its mutable fields differ from those of the stored row, and
  \<open>unchanged\<close> otherwise; so it is \<open>updated\<close> when at least one mutable field differs
  and the numbers of both records have at most two decimals. The three calls report the
  same row identifier, and loading the three records in one batch counts them the same
  way.
\<close>

theorem upsert_action_classification:
  "(connect E db = (Inr u, db0) \<and> execute E (params_of e) db0 = (Inr cur, db1)
      \<and> rowcount cur = 1 \<longrightarrow>
      fst (upsert_earnings_row E e db) = Inr \<lparr>row_id = lastrowid cur, action = Inserted\<rparr>
      \<and> fst (load_earnings_rows E [e] c db) =
          Inr \<lparr>inserted = 1, updated = 0, unchanged = 0, attempted = 1\<rparr>)
   \<and> (connect E db = (Inr u, db0) \<and> execute E (params_of e) db0 = (Inr cur, db1)
      \<and> rowcount cur = 2 \<longrightarrow>
      fst (upsert_earnings_row E e db) = Inr \<lparr>row_id = lastrowid cur, action = Updated\<rparr>
      \<and> fst (load_earnings_rows E [e] c db) =
          Inr \<lparr>inserted = 0, updated = 1, unchanged = 0, attempted = 1\<rparr>)
   \<and> (connect E db = (Inr u, db0) \<and> execute E (params_of e) db0 = (Inr cur, db1)
      \<and> rowcount cur \<noteq> 1 \<and> rowcount cur \<noteq> 2 \<longrightarrow>
      fst (upsert_earnings_row E e db) = Inr \<lparr>row_id = lastrowid cur, action = Unchanged\<rparr>
      \<and> fst (load_earnings_rows E [e] c db) =
          Inr \<lparr>inserted = 0, updated = 0, unchanged = 1, attempted = 1\<rparr>)
   \<and> (accepted (params_of e) \<and> committed s (key_of ck (params_of e)) = None \<longrightarrow>
        fst (upsert_earnings_row (spec_engine ck) e s) = Inr \<lparr>row_id = next_id s, action = Inserted\<rparr>
        \<and> fst (upsert_earnings_row (spec_engine ck) e (snd (upsert_earnings_row (spec_engine ck) e s))) = Inr \<lparr>row_id = next_id s, action = Unchanged\<rparr>
        \<and> (accepted (params_of e') \<and> key_of ck (params_of e') = key_of ck (params_of e) \<longrightarrow>
             fst (upsert_earnings_row (spec_engine ck) e' (snd (upsert_earnings_row (spec_engine ck) e (snd (upsert_earnings_row (spec_engine ck) e s))))) =
               Inr \<lparr>row_id = next_id s,
                    action = (if stored_of (params_of e') = stored_of (params_of e)
                              then Unchanged else Updated)\<rparr>
             \<and> fst (load_earnings_rows (spec_engine ck) [e, e, e'] c s) =
                 Inr (if stored_of (params_of e') = stored_of (params_of e)
                      then \<lparr>inserted = 1, updated = 0, unchanged = 2, attempted = 3\<rparr>
                      else \<lparr>inserted = 1, updated = 1, unchanged = 1, attempted = 3\<rparr>))
        \<and> (accepted (params_of e') \<and> key_of ck (params_of e') = key_of ck (params_of e)
             \<and> stored_as_given e \<and> stored_as_given e'
             \<and> (quarter e' \<noteq> quarter e \<or> rev_est e' \<noteq> rev_est e
                \<or> rev_est_unit e' \<noteq> rev_est_unit e \<or> rev_act e' \<noteq> rev_act e
                \<or> rev_act_unit e' \<noteq> rev_act_unit e \<or> rev_pct e' \<noteq> rev_pct e
                \<or> rev_status e' \<noteq> rev_status e \<or> eps_est e' \<noteq> eps_est e
                \<or> eps_act e' \<noteq> eps_act e \<or> eps_pct e' \<noteq> eps_pct e
                \<or> eps_status e' \<noteq> eps_status e) \<longrightarrow>
             fst (upsert_earnings_row (spec_engine ck) e' (snd (upsert_earnings_row (spec_engine ck) e (snd (upsert_earnings_row (spec_engine ck) e s))))) = Inr \<lparr>row_id = next_id s, action = Updated\<rparr>))"
proof -
  have cls: "fst (upsert_earnings_row E e db) =
        Inr \<lparr>row_id = lastrowid cur,
             action = (if rowcount cur = 1 then Inserted
                       else if rowcount cur = 2 then Updated else Unchanged)\<rparr>"
      "fst (load_earnings_rows E [e] c db) =
        Inr (if rowcount cur = 1
             then \<lparr>inserted = 1, updated = 0, unchanged = 0, attempted = 1\<rparr>
             else if rowcount cur = 2
             then \<lparr>inserted = 0, updated = 1, unchanged = 0, attempted = 1\<rparr>
             else \<lparr>inserted = 0, updated = 0, unchanged = 1, attempted = 1\<rparr>)"
    if "connect E db = (Inr u, db0)" "execute E (params_of e) db0 = (Inr cur, db1)"
    using that by (simp_all add: upsert_earnings_row_def load_earnings_rows_def Let_def)
  have one: "fst (upsert_earnings_row E e db) = Inr \<lparr>row_id = lastrowid cur, action = Inserted\<rparr>"
      "fst (load_earnings_rows E [e] c db) =
          Inr \<lparr>inserted = 1, updated = 0, unchanged = 0, attempted = 1\<rparr>"
    if "connect E db = (Inr u, db0)" "execute E (params_of e) db0 = (Inr cur, db1)"
      "rowcount cur = 1"
    using cls [OF that(1,2)] that(3) by simp_all
  have two: "fst (upsert_earnings_row E e db) = Inr \<lparr>row_id = lastrowid cur, action = Updated\<rparr>"
      "fst (load_earnings_rows E [e] c db) =
          Inr \<lparr>inserted = 0, updated = 1, unchanged = 0, attempted = 1\<rparr>"
    if "connect E db = (Inr u, db0)" "execute E (params_of e) db0 = (Inr cur, db1)"
      "rowcount cur = 2"
    using cls [OF that(1,2)] that(3) by simp_all
  have other: "fst (upsert_earnings_row E e db) = Inr \<lparr>row_id = lastrowid cur, action = Unchanged\<rparr>"
      "fst (load_earnings_rows E [e] c db) =
          Inr \<lparr>inserted = 0, updated = 0, unchanged = 1, attempted = 1\<rparr>"
    if "connect E db = (Inr u, db0)" "execute E (params_of e) db0 = (Inr cur, db1)"
      "rowcount cur \<noteq> 1" "rowcount cur \<noteq> 2"
    using cls [OF that(1,2)] that(3,4) by simp_all
  have first: "fst (upsert_earnings_row (spec_engine ck) e s) = Inr \<lparr>row_id = next_id s, action = Inserted\<rparr>"
      "fst (upsert_earnings_row (spec_engine ck) e (snd (upsert_earnings_row (spec_engine ck) e s))) = Inr \<lparr>row_id = next_id s, action = Unchanged\<rparr>"
    if "accepted (params_of e)" "committed s (key_of ck (params_of e)) = None"
    using spec_three(1,2) [OF that(1) that(1) that(2) refl] by simp_all
  have third: "fst (upsert_earnings_row (spec_engine ck) e' (snd (upsert_earnings_row (spec_engine ck) e (snd (upsert_earnings_row (spec_engine ck) e s))))) =
               Inr \<lparr>row_id = next_id s,
                    action = (if stored_of (params_of e') = stored_of (params_of e)
                              then Unchanged else Updated)\<rparr>"
      "fst (load_earnings_rows (spec_engine ck) [e, e, e'] c s) =
                 Inr (if stored_of (params_of e') = stored_of (params_of e)
                      then \<lparr>inserted = 1, updated = 0, unchanged = 2, attempted = 3\<rparr>
                      else \<lparr>inserted = 1, updated = 1, unchanged = 1, attempted = 3\<rparr>)"
    if "accepted (params_of e)" "committed s (key_of ck (params_of e)) = None"
      "accepted (params_of e')" "key_of ck (params_of e') = key_of ck (params_of e)"
    using spec_three(3) [OF that(1,3,2,4)] spec_load_three [OF that(1,3,2,4)] by simp_all
  have upd: "fst (upsert_earnings_row (spec_engine ck) e' (snd (upsert_earnings_row (spec_engine ck) e (snd (upsert_earnings_row (spec_engine ck) e s))))) = Inr \<lparr>row_id = next_id s, action = Updated\<rparr>"
    if "accepted (params_of e)" "committed s (key_of ck (params_of e)) = None"
      "accepted (params_of e')" "key_of ck (params_of e') = key_of ck (params_of e)"
      "stored_as_given e" "stored_as_given e'"
      "(quarter e' \<noteq> quarter e \<or> rev_est e' \<noteq> rev_est e
                \<or> rev_est_unit e' \<noteq> rev_est_unit e \<or> rev_act e' \<noteq> rev_act e
                \<or> rev_act_unit e' \<noteq> rev_act_unit e \<or> rev_pct e' \<noteq> rev_pct e
                \<or> rev_status e' \<noteq> rev_status e \<or> eps_est e' \<noteq> eps_est e
                \<or> eps_act e' \<noteq> eps_act e \<or> eps_pct e' \<noteq> eps_pct e
                \<or> eps_status e' \<noteq> eps_status e)"
    using third(1) [OF that(1,2,3,4)] stored_changed [OF that(1,3,5,6,7)] by simp
  show ?thesis
    by (intro conjI impI; elim conjE; (rule one two other first third upd; assumption))
qed

theorem upsert_action_classification_witness:
  "fst (upsert_earnings_row (spec_engine py_upper) example_earnings empty_store)
     = Inr \<lparr>row_id = 1, action = Inserted\<rparr>
   \<and> fst (upsert_earnings_row (spec_engine py_upper) example_earnings
            (snd (upsert_earnings_row (spec_engine py_upper) example_earnings empty_store)))
     = Inr \<lparr>row_id = 1, action = Unchanged\<rparr>
   \<and> fst (upsert_earnings_row (spec_engine py_upper) revised_earnings
            (snd (upsert_earnings_row (spec_engine py_upper) example_earnings
               (snd (upsert_earnings_row (spec_engine py_upper) example_earnings empty_store)))))
     = Inr \<lparr>row_id = 1, action = Updated\<rparr>
   \<and> fst (load_earnings_rows (spec_engine py_upper)
            [example_earnings, example_earnings, revised_earnings] 500 empty_store)
     = Inr \<lparr>inserted = 1, updated = 1, unchanged = 1, attempted = 3\<rparr>
   \<and> fst (load_earnings_rows (spec_engine py_upper) [example_earnings] 500 empty_store)
     = Inr \<lparr>inserted = 1, updated = 0, unchanged = 0, attempted = 1\<rparr>
   \<and> fst (load_earnings_rows (spec_engine py_upper) [example_earnings] 500
            (snd (upsert_earnings_row (spec_engine py_upper) example_earnings empty_store)))
     = Inr \<lparr>inserted = 0, updated = 0, unchanged = 1, attempted = 1\<rparr>
   \<and> fst (upsert_earnings_row (spec_engine py_upper) revised_earnings
            (snd (upsert_earnings_row (spec_engine py_upper) example_earnings empty_store)))
     = Inr \<lparr>row_id = 1, action = Updated\<rparr>
   \<and> fst (load_earnings_rows (spec_engine py_upper) [revised_earnings] 500
            (snd (upsert_earnings_row (spec_engine py_upper) example_earnings empty_store)))
     = Inr \<lparr>inserted = 0, updated = 1, unchanged = 0, attempted = 1\<rparr>"
proof -
  define s1 where "s1 = (snd (upsert_earnings_row (spec_engine py_upper) example_earnings empty_store))"
  define s2 where "s2 = s1\<lparr>working := committed s1\<rparr>"
  have k: "committed empty_store (key_of py_upper (params_of example_earnings)) = None"
    "next_id empty_store = 1"
    by (simp_all add: empty_store_def)
  have r: "key_of py_upper (params_of revised_earnings) = key_of py_upper (params_of example_earnings)"
    "eps_act revised_earnings \<noteq> eps_act example_earnings"
    by (simp_all add: key_of_def params_of_def revised_earnings_def example_earnings_def)
  have d: "stored_of (params_of revised_earnings) \<noteq> stored_of (params_of example_earnings)"
    by code_simp
  have x: "connect (spec_engine py_upper) empty_store = (Inr (), empty_store)"
    "execute (spec_engine py_upper) (params_of example_earnings) empty_store =
       (Inr \<lparr>rowcount = 1, lastrowid = 1\<rparr>,
        snd (spec_execute py_upper (params_of example_earnings) empty_store))"
    by (simp_all add: spec_engine_simps spec_execute_def example_accepted k empty_store_def)
  have c1: "committed s1 (key_of py_upper (params_of example_earnings))
              = Some (1, stored_of (params_of example_earnings))"
    unfolding s1_def
    using spec_upsert(2) [OF example_accepted(1), of py_upper empty_store] k by simp
  have y: "connect (spec_engine py_upper) s1 = (Inr (), s2)"
    "execute (spec_engine py_upper) (params_of example_earnings) s2 =
       (Inr \<lparr>rowcount = 0, lastrowid = 1\<rparr>, s2)"
    "execute (spec_engine py_upper) (params_of revised_earnings) s2 =
       (Inr \<lparr>rowcount = 2, lastrowid = 1\<rparr>,
        snd (spec_execute py_upper (params_of revised_earnings) s2))"
    using c1 d
    by (simp_all add: s2_def spec_engine_simps spec_execute_def example_accepted r)
  have w1: "fst (upsert_earnings_row (spec_engine py_upper) example_earnings empty_store)
       = Inr \<lparr>row_id = 1, action = Inserted\<rparr>
     \<and> fst (upsert_earnings_row (spec_engine py_upper) example_earnings s1)
       = Inr \<lparr>row_id = 1, action = Unchanged\<rparr>
     \<and> fst (upsert_earnings_row (spec_engine py_upper) revised_earnings
              (snd (upsert_earnings_row (spec_engine py_upper) example_earnings s1)))
       = Inr \<lparr>row_id = 1, action = Updated\<rparr>
     \<and> fst (load_earnings_rows (spec_engine py_upper)
              [example_earnings, example_earnings, revised_earnings] 500 empty_store)
       = Inr \<lparr>inserted = 1, updated = 1, unchanged = 1, attempted = 3\<rparr>
     \<and> fst (load_earnings_rows (spec_engine py_upper) [example_earnings] 500 empty_store)
       = Inr \<lparr>inserted = 1, updated = 0, unchanged = 0, attempted = 1\<rparr>"
    unfolding s1_def
    using upsert_action_classification [of "spec_engine py_upper" empty_store "()" empty_store
            example_earnings "\<lparr>rowcount = 1, lastrowid = 1\<rparr>"
            "snd (spec_execute py_upper (params_of example_earnings) empty_store)" 500
            empty_store py_upper revised_earnings]
          k r d x example_accepted
    by simp
  have w2: "fst (load_earnings_rows (spec_engine py_upper) [example_earnings] 500 s1)
       = Inr \<lparr>inserted = 0, updated = 0, unchanged = 1, attempted = 1\<rparr>"
    using upsert_action_classification [of "spec_engine py_upper" s1 "()" s2
            example_earnings "\<lparr>rowcount = 0, lastrowid = 1\<rparr>" s2 500
            empty_store py_upper example_earnings]
          y(1,2)
    by simp
  have w3: "fst (upsert_earnings_row (spec_engine py_upper) revised_earnings s1)
       = Inr \<lparr>row_id = 1, action = Updated\<rparr>
     \<and> fst (load_earnings_rows (spec_engine py_upper) [revised_earnings] 500 s1)
       = Inr \<lparr>inserted = 0, updated = 1, unchanged = 0, attempted = 1\<rparr>"
    using upsert_action_classification [of "spec_engine py_upper" s1 "()" s2
            revised_earnings "\<lparr>rowcount = 2, lastrowid = 1\<rparr>"
            "snd (spec_execute py_upper (params_of revised_earnings) s2)" 500
            empty_store py_upper example_earnings]
          y(1,3)
    by simp
  show ?thesis
    using w1 w2 w3 unfolding s1_def by simp
qed

end
